theory Spec2Isabelle
  imports Complex_Main "HOL-Library.Word"
begin

section \<open>JavaScript values read by the service\<close>

text \<open>
  A JavaScript string is a sequence of 16-bit code units. Source literals are written
  with \<open>js\<close>, which maps each character of an Isabelle string to its code unit.
\<close>

type_synonym jchar = "16 word"
type_synonym jstring = "jchar list"

definition js :: "string \<Rightarrow> jstring" where
  "js s = map of_char s"

text \<open>
  The values \<open>JSON.parse\<close> and the body parser produce. A number carries the exact
  value of its decimal literal; the engine stores the nearest IEEE double, which is a
  function of that value (the sign of a zero is not kept: nothing here reads it). An
  object is its members in insertion order, each key once (the order in which an engine
  enumerates index-like keys is not modelled: no function here enumerates an object).
  The JavaScript value \<open>undefined\<close> is not a JSON value: a value that may be
  undefined is a \<open>json option\<close>, with \<open>None\<close> for \<open>undefined\<close>.
\<close>

datatype json =
    JNull
  | JBool bool
  | JNumber rat
  | JString jstring
  | JArray "json list"
  | JObject "(jstring \<times> json) list"

type_synonym jsval = "json option"

text \<open>Exceptions: what a \<open>throw\<close> or a rejected promise carries.\<close>

datatype exn =
    SyntaxError
  | TypeError
  | Rejected jstring

section \<open>JSON.parse\<close>

subsection \<open>Tokens\<close>

datatype token =
    TLBrace | TRBrace | TLBracket | TRBracket | TColon | TComma
  | TString jstring | TNumber rat | TTrue | TFalse | TNull

definition is_ws :: "jchar \<Rightarrow> bool" where
  "is_ws c = (c = 0x20 \<or> c = 0x09 \<or> c = 0x0A \<or> c = 0x0D)"

definition is_digit :: "jchar \<Rightarrow> bool" where
  "is_digit c = (0x30 \<le> c \<and> c \<le> 0x39)"

definition hex_value :: "jchar \<Rightarrow> nat option" where
  "hex_value c =
     (if 0x30 \<le> c \<and> c \<le> 0x39 then Some (unat c - 0x30)
      else if 0x61 \<le> c \<and> c \<le> 0x66 then Some (unat c - 0x61 + 10)
      else if 0x41 \<le> c \<and> c \<le> 0x46 then Some (unat c - 0x41 + 10)
      else None)"

text \<open>The single-character escapes: the character after the backslash, and what it denotes.\<close>

definition unescape :: "jchar \<Rightarrow> jchar option" where
  "unescape e =
     (if e = 0x22 then Some 0x22
      else if e = 0x5C then Some 0x5C
      else if e = 0x2F then Some 0x2F
      else if e = of_char CHR ''b'' then Some 0x08
      else if e = of_char CHR ''f'' then Some 0x0C
      else if e = of_char CHR ''n'' then Some 0x0A
      else if e = of_char CHR ''r'' then Some 0x0D
      else if e = of_char CHR ''t'' then Some 0x09
      else None)"

definition unicode_escape :: "jchar \<Rightarrow> jchar \<Rightarrow> jchar \<Rightarrow> jchar \<Rightarrow> jchar option" where
  "unicode_escape h1 h2 h3 h4 =
     (case (hex_value h1, hex_value h2, hex_value h3, hex_value h4) of
        (Some a, Some b, Some c, Some d) \<Rightarrow> Some (of_nat (4096 * a + 256 * b + 16 * c + d))
      | _ \<Rightarrow> None)"

text \<open>
  The characters of a string literal, read after its opening quote: the string denoted
  and the input left after the closing quote. A control character (below U+0020), an
  unknown escape and a missing closing quote are syntax errors.
\<close>

fun lex_chars :: "jstring \<Rightarrow> (jstring \<times> jstring) option" where
  "lex_chars [] = None"
| "lex_chars (c # cs) =
     (if c = 0x22 then Some ([], cs)
      else if c = 0x5C then
        (case cs of
           [] \<Rightarrow> None
         | e # cs' \<Rightarrow>
             if e = of_char CHR ''u'' then
               (case cs' of
                  h1 # h2 # h3 # h4 # cs'' \<Rightarrow>
                    (case unicode_escape h1 h2 h3 h4 of
                       None \<Rightarrow> None
                     | Some u \<Rightarrow> map_option (\<lambda>(s, r). (u # s, r)) (lex_chars cs''))
                | _ \<Rightarrow> None)
             else
               (case unescape e of
                  None \<Rightarrow> None
                | Some u \<Rightarrow> map_option (\<lambda>(s, r). (u # s, r)) (lex_chars cs')))
      else if c < 0x20 then None
      else map_option (\<lambda>(s, r). (c # s, r)) (lex_chars cs))"

text \<open>A run of decimal digits read as a natural number.\<close>

definition digits_value :: "jstring \<Rightarrow> nat" where
  "digits_value ds = foldl (\<lambda>n c. 10 * n + (unat c - 0x30)) 0 ds"

text \<open>The integer part of a number: a single \<open>0\<close>, or a run of digits not starting with \<open>0\<close>.\<close>

fun lex_int :: "jstring \<Rightarrow> (jstring \<times> jstring) option" where
  "lex_int [] = None"
| "lex_int (c # cs) =
     (if c = 0x30 then Some ([c], cs)
      else if is_digit c then Some (c # takeWhile is_digit cs, dropWhile is_digit cs)
      else None)"

text \<open>The optional fraction: a point and one digit at least.\<close>

fun lex_frac :: "jstring \<Rightarrow> (jstring \<times> jstring) option" where
  "lex_frac [] = Some ([], [])"
| "lex_frac (c # cs) =
     (if c = of_char CHR ''.'' then
        (if takeWhile is_digit cs = [] then None
         else Some (takeWhile is_digit cs, dropWhile is_digit cs))
      else Some ([], c # cs))"

text \<open>The digits of an exponent, after its sign.\<close>

definition lex_exp_digits :: "int \<Rightarrow> jstring \<Rightarrow> (int \<times> jstring) option" where
  "lex_exp_digits sg cs =
     (if takeWhile is_digit cs = [] then None
      else Some (sg * int (digits_value (takeWhile is_digit cs)), dropWhile is_digit cs))"

text \<open>The optional exponent: \<open>e\<close> or \<open>E\<close>, an optional sign and one digit at least.\<close>

fun lex_exp :: "jstring \<Rightarrow> (int \<times> jstring) option" where
  "lex_exp [] = Some (0, [])"
| "lex_exp (c # cs) =
     (if c = of_char CHR ''e'' \<or> c = of_char CHR ''E'' then
        (case cs of
           [] \<Rightarrow> None
         | s # cs' \<Rightarrow>
             if s = of_char CHR ''+'' then lex_exp_digits 1 cs'
             else if s = of_char CHR ''-'' then lex_exp_digits (- 1) cs'
             else lex_exp_digits 1 (s # cs'))
      else Some (0, c # cs))"

text \<open>The exact value of a decimal literal: integer digits, fraction digits, exponent.\<close>

definition decimal :: "jstring \<Rightarrow> jstring \<Rightarrow> int \<Rightarrow> rat" where
  "decimal ip fp ex =
     (let m = of_nat (digits_value ip) + of_nat (digits_value fp) / 10 ^ length fp
      in if 0 \<le> ex then m * 10 ^ nat ex else m / 10 ^ nat (- ex))"

text \<open>An unsigned number: integer part, fraction, exponent.\<close>

definition lex_unsigned :: "jstring \<Rightarrow> (rat \<times> jstring) option" where
  "lex_unsigned cs =
     (case lex_int cs of
        None \<Rightarrow> None
      | Some (ip, cs1) \<Rightarrow>
          (case lex_frac cs1 of
             None \<Rightarrow> None
           | Some (fp, cs2) \<Rightarrow>
               (case lex_exp cs2 of
                  None \<Rightarrow> None
                | Some (ex, cs3) \<Rightarrow> Some (decimal ip fp ex, cs3))))"

fun lex_number :: "jstring \<Rightarrow> (rat \<times> jstring) option" where
  "lex_number [] = None"
| "lex_number (c # cs) =
     (if c = of_char CHR ''-'' then map_option (\<lambda>(q, r). (- q, r)) (lex_unsigned cs)
      else lex_unsigned (c # cs))"

text \<open>A keyword (\<open>true\<close>, \<open>false\<close>, \<open>null\<close>) at the head of the input: the input after it.\<close>

definition lex_keyword :: "jstring \<Rightarrow> jstring \<Rightarrow> jstring option" where
  "lex_keyword kw cs = (if take (length kw) cs = kw then Some (drop (length kw) cs) else None)"

lemma lex_chars_length: "lex_chars cs = Some (s, r) \<Longrightarrow> length r < length cs"
proof (induction cs arbitrary: s r rule: lex_chars.induct)
  case 1
  then show ?case by simp
next
  case (2 c cs)
  then show ?case
    by (fastforce split: if_splits list.splits option.splits)
qed

lemma lex_int_length: "lex_int cs = Some (ip, r) \<Longrightarrow> length r < length cs"
  by (cases cs) (auto split: if_splits simp: length_dropWhile_le less_Suc_eq_le)

lemma lex_frac_length: "lex_frac cs = Some (fp, r) \<Longrightarrow> length r \<le> length cs"
  by (cases cs) (auto split: if_splits simp: length_dropWhile_le le_SucI)

lemma lex_exp_digits_length: "lex_exp_digits sg cs = Some (ex, r) \<Longrightarrow> length r \<le> length cs"
  by (auto simp: lex_exp_digits_def length_dropWhile_le split: if_splits)

lemma lex_exp_length: "lex_exp cs = Some (ex, r) \<Longrightarrow> length r \<le> length cs"
proof (cases cs)
  case Nil
  assume "lex_exp cs = Some (ex, r)"
  with Nil show ?thesis by simp
next
  case (Cons c cs')
  assume h: "lex_exp cs = Some (ex, r)"
  show ?thesis
  proof (cases "c = of_char CHR ''e'' \<or> c = of_char CHR ''E''")
    case False
    with h Cons show ?thesis by auto
  next
    case True
    with h Cons obtain s cs'' where cs': "cs' = s # cs''"
      by (cases cs') auto
    from h Cons True cs' have
      "lex_exp_digits 1 cs'' = Some (ex, r) \<or> lex_exp_digits (- 1) cs'' = Some (ex, r)
        \<or> lex_exp_digits 1 (s # cs'') = Some (ex, r)"
      by (auto split: if_splits)
    then have "length r \<le> length (s # cs'')"
      by (auto dest: lex_exp_digits_length)
    with Cons cs' show ?thesis by simp
  qed
qed

lemma lex_unsigned_length: "lex_unsigned cs = Some (q, r) \<Longrightarrow> length r < length cs"
  unfolding lex_unsigned_def
  by (auto split: option.splits dest!: lex_int_length lex_frac_length lex_exp_length)

lemma lex_number_length: "lex_number cs = Some (q, r) \<Longrightarrow> length r < length cs"
  by (cases cs) (auto split: if_splits dest!: lex_unsigned_length)

lemma lex_keyword_length: "lex_keyword kw cs = Some r \<Longrightarrow> length r \<le> length cs"
  by (auto simp: lex_keyword_def split: if_splits)

text \<open>
  The tokens of a text. Whitespace is space, tab, line feed and carriage return; any
  other character that starts no token is a syntax error (\<open>None\<close>).
\<close>

function lex :: "jstring \<Rightarrow> token list option" where
  "lex [] = Some []"
| "lex (c # cs) =
     (if is_ws c then lex cs
      else if c = of_char CHR ''{'' then map_option (Cons TLBrace) (lex cs)
      else if c = of_char CHR ''}'' then map_option (Cons TRBrace) (lex cs)
      else if c = of_char CHR ''['' then map_option (Cons TLBracket) (lex cs)
      else if c = of_char CHR '']'' then map_option (Cons TRBracket) (lex cs)
      else if c = of_char CHR '':'' then map_option (Cons TColon) (lex cs)
      else if c = of_char CHR '','' then map_option (Cons TComma) (lex cs)
      else if c = 0x22 then
        (case lex_chars cs of
           None \<Rightarrow> None
         | Some (s, r) \<Rightarrow> map_option (Cons (TString s)) (lex r))
      else if c = of_char CHR ''-'' \<or> is_digit c then
        (case lex_number (c # cs) of
           None \<Rightarrow> None
         | Some (q, r) \<Rightarrow> map_option (Cons (TNumber q)) (lex r))
      else if c = of_char CHR ''t'' then
        (case lex_keyword (js ''rue'') cs of
           None \<Rightarrow> None
         | Some r \<Rightarrow> map_option (Cons TTrue) (lex r))
      else if c = of_char CHR ''f'' then
        (case lex_keyword (js ''alse'') cs of
           None \<Rightarrow> None
         | Some r \<Rightarrow> map_option (Cons TFalse) (lex r))
      else if c = of_char CHR ''n'' then
        (case lex_keyword (js ''ull'') cs of
           None \<Rightarrow> None
         | Some r \<Rightarrow> map_option (Cons TNull) (lex r))
      else None)"
  by pat_completeness auto
termination
proof (relation "measure length")
  show "wf (measure length)" by simp
qed (auto simp del: lex_number.simps dest: lex_chars_length lex_number_length lex_keyword_length)

subsection \<open>Values\<close>

text \<open>
  Defining a property of an object under construction: a key already there keeps its
  place and takes the new value (of a repeated key the last value stands), a new key is
  added last.
\<close>

fun set_member :: "(jstring \<times> json) list \<Rightarrow> jstring \<Rightarrow> json \<Rightarrow> (jstring \<times> json) list" where
  "set_member [] k v = [(k, v)]"
| "set_member ((k', v') # ms) k v =
     (if k' = k then (k, v) # ms else (k', v') # set_member ms k v)"

text \<open>
  The parser reads the tokens one at a time and keeps the containers it is inside on a
  stack: an array with its elements so far, or an object with its members so far and
  the key whose value is being read.
\<close>

datatype frame =
    InArray "json list"
  | InObject "(jstring \<times> json) list" jstring

text \<open>What the parser is waiting for.\<close>

datatype pstate =
    PValue "frame list"
    \<comment> \<open>a value must start here\<close>
  | PFirstElem "frame list"
    \<comment> \<open>just after \<open>[\<close>: a value or \<open>]\<close>\<close>
  | PFirstKey "frame list"
    \<comment> \<open>just after \<open>{\<close>: a key or \<open>}\<close>\<close>
  | PKey "(jstring \<times> json) list" "frame list"
    \<comment> \<open>after a comma in an object: a key\<close>
  | PColon "(jstring \<times> json) list" jstring "frame list"
    \<comment> \<open>after a key: the colon\<close>
  | PAfter json "frame list"
    \<comment> \<open>a value is complete: a comma, the closing bracket, or the end of the text\<close>

text \<open>A token where a value must start.\<close>

fun start_value :: "frame list \<Rightarrow> token \<Rightarrow> pstate option" where
  "start_value st TNull = Some (PAfter JNull st)"
| "start_value st TTrue = Some (PAfter (JBool True) st)"
| "start_value st TFalse = Some (PAfter (JBool False) st)"
| "start_value st (TNumber q) = Some (PAfter (JNumber q) st)"
| "start_value st (TString s) = Some (PAfter (JString s) st)"
| "start_value st TLBracket = Some (PFirstElem st)"
| "start_value st TLBrace = Some (PFirstKey st)"
| "start_value st _ = None"

fun pstep :: "pstate \<Rightarrow> token \<Rightarrow> pstate option" where
  "pstep (PValue st) t = start_value st t"
| "pstep (PFirstElem st) TRBracket = Some (PAfter (JArray []) st)"
| "pstep (PFirstElem st) t = start_value (InArray [] # st) t"
| "pstep (PFirstKey st) TRBrace = Some (PAfter (JObject []) st)"
| "pstep (PFirstKey st) (TString k) = Some (PColon [] k st)"
| "pstep (PFirstKey st) _ = None"
| "pstep (PKey ms st) (TString k) = Some (PColon ms k st)"
| "pstep (PKey ms st) _ = None"
| "pstep (PColon ms k st) TColon = Some (PValue (InObject ms k # st))"
| "pstep (PColon ms k st) _ = None"
| "pstep (PAfter v (InArray es # st)) TComma = Some (PValue (InArray (es @ [v]) # st))"
| "pstep (PAfter v (InArray es # st)) TRBracket = Some (PAfter (JArray (es @ [v])) st)"
| "pstep (PAfter v (InObject ms k # st)) TComma = Some (PKey (set_member ms k v) st)"
| "pstep (PAfter v (InObject ms k # st)) TRBrace = Some (PAfter (JObject (set_member ms k v)) st)"
| "pstep (PAfter v _) _ = None"

fun prun :: "pstate \<Rightarrow> token list \<Rightarrow> pstate option" where
  "prun p [] = Some p"
| "prun p (t # ts) = (case pstep p t of None \<Rightarrow> None | Some p' \<Rightarrow> prun p' ts)"

text \<open>The text is one value: at the end no container is open and nothing follows.\<close>

definition parse_tokens :: "token list \<Rightarrow> json option" where
  "parse_tokens ts =
     (case prun (PValue []) ts of
        Some (PAfter v []) \<Rightarrow> Some v
      | _ \<Rightarrow> None)"

text \<open>\<open>JSON.parse(text)\<close>: the value, or the SyntaxError it throws.\<close>

definition JSON_parse :: "jstring \<Rightarrow> exn + json" where
  "JSON_parse text =
     (case lex text of
        None \<Rightarrow> Inl SyntaxError
      | Some ts \<Rightarrow>
          (case parse_tokens ts of
             None \<Rightarrow> Inl SyntaxError
           | Some v \<Rightarrow> Inr v))"

section \<open>Reading and testing values\<close>

text \<open>
  The property \<open>k\<close> of a value that is not \<open>null\<close>, for the names this program reads
  (\<open>type\<close>, \<open>output\<close>, \<open>ComparisonArray\<close>, \<open>role\<close>, \<open>input\<close>): an object gives its
  member or \<open>undefined\<close>; a string, a number, a boolean and an array have no property of
  these names, so they give \<open>undefined\<close>.
\<close>

fun field :: "json \<Rightarrow> jstring \<Rightarrow> jsval" where
  "field (JObject ms) k = map_of ms k"
| "field _ k = None"

text \<open>The read \<open>v.k\<close>: reading a property of \<open>null\<close> throws a TypeError.\<close>

definition get_field :: "json \<Rightarrow> jstring \<Rightarrow> exn + jsval" where
  "get_field v k = (if v = JNull then Inl TypeError else Inr (field v k))"

text \<open>
  A number is stored as the double nearest to its literal; that double is zero exactly
  when the literal's value is at most 2 to the power -1075 in magnitude (half the least
  positive double, the tie going to zero).
\<close>

definition rounds_to_zero :: "rat \<Rightarrow> bool" where
  "rounds_to_zero q = (\<bar>q\<bar> * 2 ^ 1075 \<le> 1)"

text \<open>What a condition takes for true: all but \<open>undefined\<close>, \<open>null\<close>, \<open>false\<close>, zero and the empty string.\<close>

fun truthy :: "jsval \<Rightarrow> bool" where
  "truthy None = False"
| "truthy (Some JNull) = False"
| "truthy (Some (JBool b)) = b"
| "truthy (Some (JNumber q)) = (\<not> rounds_to_zero q)"
| "truthy (Some (JString s)) = (s \<noteq> [])"
| "truthy (Some (JArray es)) = True"
| "truthy (Some (JObject ms)) = True"

text \<open>\<open>Array.isArray(x)\<close>.\<close>

fun isArray :: "jsval \<Rightarrow> bool" where
  "isArray (Some (JArray es)) = True"
| "isArray _ = False"

text \<open>The elements of an array; read only of a value that passed \<open>Array.isArray\<close>.\<close>

fun elements :: "jsval \<Rightarrow> json list" where
  "elements (Some (JArray es)) = es"
| "elements _ = []"

text \<open>\<open>typeof x === "string"\<close>.\<close>

fun is_string :: "jsval \<Rightarrow> bool" where
  "is_string (Some (JString s)) = True"
| "is_string _ = False"

section \<open>ManifestoOutputParser\<close>

definition parse_failure_message :: jstring where
  "parse_failure_message = js ''Failed to retrieve a valid response.''"

definition semantic_fallback_message :: jstring where
  "semantic_fallback_message =
     js ''The comparison did not retrieve enough details. Please try a different query.''"

text \<open>The object \<open>{ type: "fallback", output: msg }\<close>.\<close>

definition fallback :: "jstring \<Rightarrow> json" where
  "fallback msg = JObject [(js ''type'', JString (js ''fallback'')), (js ''output'', JString msg)]"

text \<open>
  The \<open>try\<close> block of \<open>parseOutput\<close> (first variant of the file): \<open>Inl e\<close> when it
  throws \<open>e\<close>, \<open>Inr (Some r)\<close> when it returns \<open>r\<close>, \<open>Inr None\<close> when it ends without
  returning. Each property of the parsed value is read once here, where the source reads
  it again in each test: the reads have no effect and give the same value.
\<close>

definition parseOutput_try :: "jstring \<Rightarrow> exn + json option" where
  "parseOutput_try output =
     (case JSON_parse output of
        Inl e \<Rightarrow> Inl e
      | Inr parsedResponse \<Rightarrow>
          (case get_field parsedResponse (js ''type'') of
             Inl e \<Rightarrow> Inl e
           | Inr ty \<Rightarrow>
               if ty = Some (JString (js ''Comparison'')) then
                 (case get_field parsedResponse (js ''ComparisonArray'') of
                    Inl e \<Rightarrow> Inl e
                  | Inr ComparisonArray \<Rightarrow>
                      if truthy ComparisonArray \<and> isArray ComparisonArray
                         \<and> 0 < length (elements ComparisonArray)
                      then Inr (Some parsedResponse)
                      else Inr (Some (fallback semantic_fallback_message)))
               else if ty = Some (JString (js ''normal'')) then
                 (case get_field parsedResponse (js ''output'') of
                    Inl e \<Rightarrow> Inl e
                  | Inr out \<Rightarrow>
                      if truthy out \<and> is_string out then Inr (Some parsedResponse)
                      else Inr None)
               else Inr None))"

text \<open>
  \<open>parseOutput(output)\<close>, first variant: the \<open>catch\<close> clause returns the parse-failure
  fallback for whatever the block threw; a block that ends without returning falls to
  the last statement, which returns the raw text in a fallback.
\<close>

definition parseOutput :: "jstring \<Rightarrow> exn + json" where
  "parseOutput output =
     (case parseOutput_try output of
        Inl error \<Rightarrow> Inr (fallback parse_failure_message)
      | Inr (Some r) \<Rightarrow> Inr r
      | Inr None \<Rightarrow> Inr (fallback output))"

text \<open>
  The second variant of the file. The destructuring
  \<open>const { type, output: normalOutput, ComparisonArray } = parsedResponse\<close> throws a
  TypeError on \<open>null\<close> and reads the three properties otherwise.
\<close>

definition destructure :: "json \<Rightarrow> exn + jsval \<times> jsval \<times> jsval" where
  "destructure parsedResponse =
     (if parsedResponse = JNull then Inl TypeError
      else Inr (field parsedResponse (js ''type''),
                field parsedResponse (js ''output''),
                field parsedResponse (js ''ComparisonArray'')))"

definition parseOutput_v2_try :: "jstring \<Rightarrow> exn + json option" where
  "parseOutput_v2_try output =
     (case JSON_parse output of
        Inl e \<Rightarrow> Inl e
      | Inr parsedResponse \<Rightarrow>
          (case destructure parsedResponse of
             Inl e \<Rightarrow> Inl e
           | Inr (ty, normalOutput, ComparisonArray) \<Rightarrow>
               if ty = Some (JString (js ''Comparison'')) \<and> isArray ComparisonArray
                  \<and> 0 < length (elements ComparisonArray)
               then Inr (Some parsedResponse)
               else if ty = Some (JString (js ''normal'')) \<and> is_string normalOutput
               then Inr (Some parsedResponse)
               else Inr None))"

text \<open>
  Its \<open>catch\<close> clause only logs, so a thrown error and a block that ends without
  returning both reach the one fallback after it.
\<close>

definition parseOutput_v2 :: "jstring \<Rightarrow> exn + json" where
  "parseOutput_v2 output =
     (case parseOutput_v2_try output of
        Inl error \<Rightarrow> Inr (fallback parse_failure_message)
      | Inr (Some r) \<Rightarrow> Inr r
      | Inr None \<Rightarrow> Inr (fallback parse_failure_message))"

section \<open>formatConversationHistory\<close>

text \<open>A message in the form the agent takes. Its content is whatever the entry held.\<close>

record message =
  role :: jstring
  content :: jsval

text \<open>
  \<open>JSON.stringify(x, null, 2)\<close> inside a template literal. The serialiser of the
  language is a parameter (\<open>stringify\<close>, on JSON values); of \<open>undefined\<close> it gives
  \<open>undefined\<close>, which the template prints as the word.
\<close>

definition template_of :: "(json \<Rightarrow> jstring) \<Rightarrow> jsval \<Rightarrow> jstring" where
  "template_of stringify x = (case x of None \<Rightarrow> js ''undefined'' | Some v \<Rightarrow> stringify v)"

text \<open>
  The function mapped over the history: a message, or \<open>None\<close> for the \<open>null\<close> it
  returns for an entry it does not know; \<open>Inl\<close> when reading the entry throws.
\<close>

definition format_message :: "(json \<Rightarrow> jstring) \<Rightarrow> json \<Rightarrow> exn + message option" where
  "format_message stringify m =
     (case get_field m (js ''type'') of
        Inl e \<Rightarrow> Inl e
      | Inr ty \<Rightarrow>
          if ty = Some (JString (js ''Comparison'')) then
            (case get_field m (js ''ComparisonArray'') of
               Inl e \<Rightarrow> Inl e
             | Inr ca \<Rightarrow>
                 Inr (Some \<lparr>role = js ''assistant'',
                            content = Some (JString (js ''Comparison: '' @ template_of stringify ca))\<rparr>))
          else if ty = Some (JString (js ''normal'')) then
            (case get_field m (js ''output'') of
               Inl e \<Rightarrow> Inl e
             | Inr out \<Rightarrow> Inr (Some \<lparr>role = js ''assistant'', content = out\<rparr>))
          else
            (case get_field m (js ''role'') of
               Inl e \<Rightarrow> Inl e
             | Inr r \<Rightarrow>
                 if r = Some (JString (js ''human'')) then
                   (case get_field m (js ''input'') of
                      Inl e \<Rightarrow> Inl e
                    | Inr inp \<Rightarrow> Inr (Some \<lparr>role = js ''human'', content = inp\<rparr>))
                 else Inr None))"

text \<open>\<open>Array.prototype.map\<close> with a callback that may throw: the first throw ends it.\<close>

fun map_exn :: "('a \<Rightarrow> exn + 'b) \<Rightarrow> 'a list \<Rightarrow> exn + 'b list" where
  "map_exn f [] = Inr []"
| "map_exn f (x # xs) =
     (case f x of
        Inl e \<Rightarrow> Inl e
      | Inr y \<Rightarrow> (case map_exn f xs of Inl e \<Rightarrow> Inl e | Inr ys \<Rightarrow> Inr (y # ys)))"

text \<open>
  The map, then the filter that drops the \<open>null\<close>s (what it keeps are messages). The
  second variant of the file has
  the same function, its filter written \<open>filter(Boolean)\<close>: of the values mapped (a
  message object or \<open>null\<close>) it keeps the same ones.
\<close>

definition formatConversationHistory :: "(json \<Rightarrow> jstring) \<Rightarrow> json list \<Rightarrow> exn + message list" where
  "formatConversationHistory stringify history =
     (case map_exn (format_message stringify) history of
        Inl e \<Rightarrow> Inl e
      | Inr ms \<Rightarrow> Inr (map the (filter (\<lambda>msg. msg \<noteq> None) ms)))"

section \<open>The query handler\<close>

text \<open>
  The two properties the handler takes from the request body (the object the JSON body
  parser made of the request), each possibly \<open>undefined\<close>.
\<close>

record request =
  input :: jsval
  chat_history :: jsval

text \<open>What the handler writes: a status and a JSON body.\<close>

datatype http = Http nat json

text \<open>
  The collaborators. \<open>initializeAgent()\<close> resolves to an agent executor or rejects. The
  executor's \<open>invoke\<close> takes the input and the formatted history and resolves to a
  response whose \<open>output\<close> is the agent's text, or rejects (a failed retrieval inside
  the agent's loop rejects the invocation). The handler's calls to them are recorded in
  the order made.
\<close>

type_synonym agentExecutor = "jsval \<Rightarrow> message list \<Rightarrow> exn + jstring"

datatype call =
    InitializeAgent
  | Invoke jsval "message list"

definition invalid_request :: json where
  "invalid_request = JObject [(js ''error'', JString (js ''Input and chat history are required''))]"

definition processing_error :: json where
  "processing_error =
     JObject [(js ''error'', JString (js ''An error occurred while processing the query''))]"

text \<open>
  The entry \<open>{ role: "human", input }\<close>. The guard of the handler lets no undefined
  input reach it; a property whose value is undefined is left out of the body sent.
\<close>

definition human_turn :: "jsval \<Rightarrow> json" where
  "human_turn inp =
     JObject ((js ''role'', JString (js ''human'')) #
              (case inp of None \<Rightarrow> [] | Some v \<Rightarrow> [(js ''input'', v)]))"

text \<open>
  The \<open>try\<close> block of the handler, from the formatting of the history on: what it
  writes or throws, and the calls made. \<open>outputParser\<close> is the \<open>parseOutput\<close> of the
  \<open>ManifestoOutputParser\<close> the handler creates.
\<close>

definition query_try :: "(jstring \<Rightarrow> exn + json) \<Rightarrow> (json \<Rightarrow> jstring) \<Rightarrow> agentExecutor
    \<Rightarrow> jsval \<Rightarrow> json list \<Rightarrow> (exn + http) \<times> call list" where
  "query_try outputParser stringify agentExecutor inp history =
     (case formatConversationHistory stringify history of
        Inl e \<Rightarrow> (Inl e, [])
      | Inr formattedHistory \<Rightarrow>
          (case agentExecutor inp formattedHistory of
             Inl e \<Rightarrow> (Inl e, [Invoke inp formattedHistory])
           | Inr agentOutput \<Rightarrow>
               (case outputParser agentOutput of
                  Inl e \<Rightarrow> (Inl e, [Invoke inp formattedHistory])
                | Inr parsedAgentResponse \<Rightarrow>
                    (Inr (Http 200 (JObject
                       [(js ''response'', parsedAgentResponse),
                        (js ''chat_history'',
                           JArray (history @ [human_turn inp, parsedAgentResponse]))])),
                     [Invoke inp formattedHistory]))))"

text \<open>The \<open>catch\<close> clause of the handler: any error becomes the status 500 answer.\<close>

definition catch_500 :: "(exn + http) \<times> call list \<Rightarrow> (exn + http) \<times> call list" where
  "catch_500 r = (case r of (Inl error, calls) \<Rightarrow> (Inr (Http 500 processing_error), calls)
                          | (Inr h, calls) \<Rightarrow> (Inr h, calls))"

text \<open>
  The handler of \<open>POST /query\<close>, first variant: \<open>Inr\<close> the answer written, or \<open>Inl\<close> the
  error the handler's promise rejects with, no answer written. The agent is awaited
  before the \<open>try\<close> block.
\<close>

definition query_handler :: "(json \<Rightarrow> jstring) \<Rightarrow> exn + agentExecutor \<Rightarrow> request
    \<Rightarrow> (exn + http) \<times> call list" where
  "query_handler stringify initializeAgent req =
     (if \<not> truthy (input req) \<or> \<not> isArray (chat_history req)
      then (Inr (Http 400 invalid_request), [])
      else
        (case initializeAgent of
           Inl e \<Rightarrow> (Inl e, [InitializeAgent])
         | Inr agentExecutor \<Rightarrow>
             (case catch_500 (query_try parseOutput stringify agentExecutor
                                (input req) (elements (chat_history req))) of
                (r, calls) \<Rightarrow> (r, InitializeAgent # calls))))"

text \<open>
  The second variant awaits the agent inside the \<open>try\<close> block, and its parser is the
  second variant of \<open>parseOutput\<close>.
\<close>

definition query_handler_v2 :: "(json \<Rightarrow> jstring) \<Rightarrow> exn + agentExecutor \<Rightarrow> request
    \<Rightarrow> (exn + http) \<times> call list" where
  "query_handler_v2 stringify initializeAgent req =
     (if \<not> truthy (input req) \<or> \<not> isArray (chat_history req)
      then (Inr (Http 400 invalid_request), [])
      else
        (case catch_500
                (case initializeAgent of
                   Inl e \<Rightarrow> (Inl e, [])
                 | Inr agentExecutor \<Rightarrow>
                     query_try parseOutput_v2 stringify agentExecutor
                       (input req) (elements (chat_history req))) of
           (r, calls) \<Rightarrow> (r, InitializeAgent # calls)))"

section \<open>The response shapes\<close>

text \<open>
  The three shapes the normalizer tells apart, each by its \<open>type\<close> and the one
  property the normalizer tests of it: a string \<open>output\<close> for "normal", a non-empty
  array \<open>ComparisonArray\<close> for "Comparison", a string \<open>output\<close> for "fallback". For
  Normal and Fallback this is all that section 3 of the specification asks of the shape.
\<close>

definition is_Normal :: "json \<Rightarrow> bool" where
  "is_Normal v =
     (field v (js ''type'') = Some (JString (js ''normal'')) \<and> is_string (field v (js ''output'')))"

definition is_Comparison :: "json \<Rightarrow> bool" where
  "is_Comparison v =
     (field v (js ''type'') = Some (JString (js ''Comparison''))
      \<and> isArray (field v (js ''ComparisonArray''))
      \<and> elements (field v (js ''ComparisonArray'')) \<noteq> [])"

definition is_Fallback :: "json \<Rightarrow> bool" where
  "is_Fallback v =
     (field v (js ''type'') = Some (JString (js ''fallback'')) \<and> is_string (field v (js ''output'')))"

text \<open>
  The Comparison of section 3 of the specification asks more than the test: a string
  \<open>title\<close>, a string \<open>keyPoints\<close>, and for every element of the array the form of a
  Subject, a string \<open>name\<close> and an array \<open>pointArray\<close> (which may be empty) of points,
  each with a string \<open>pointTitle\<close> and a string \<open>point\<close>.
\<close>

definition is_point :: "json \<Rightarrow> bool" where
  "is_point p =
     (is_string (field p (js ''pointTitle'')) \<and> is_string (field p (js ''point'')))"

definition is_Subject :: "json \<Rightarrow> bool" where
  "is_Subject sb =
     (is_string (field sb (js ''name''))
      \<and> isArray (field sb (js ''pointArray''))
      \<and> list_all is_point (elements (field sb (js ''pointArray''))))"

definition canonical_Comparison :: "json \<Rightarrow> bool" where
  "canonical_Comparison v =
     (is_Comparison v
      \<and> is_string (field v (js ''title''))
      \<and> is_string (field v (js ''keyPoints''))
      \<and> list_all is_Subject (elements (field v (js ''ComparisonArray''))))"

section \<open>The formatted form of one history entry\<close>

text \<open>
  What one entry of the history contributes to the formatted history, in the words of
  the specification, the tests taken in the order the formatter makes them: an entry of
  \<open>type\<close> "Comparison" gives one assistant message, "Comparison: " followed by the
  serialisation of its \<open>ComparisonArray\<close>; otherwise an entry of \<open>type\<close> "normal" gives
  one assistant message with its \<open>output\<close>; otherwise an entry of \<open>role\<close> "human" gives
  one human message with its \<open>input\<close>; any other entry gives nothing.
\<close>

definition formatted_entry :: "(json \<Rightarrow> jstring) \<Rightarrow> json \<Rightarrow> message list" where
  "formatted_entry stringify m =
     (if field m (js ''type'') = Some (JString (js ''Comparison'')) then
        [\<lparr>role = js ''assistant'',
          content = Some (JString (js ''Comparison: ''
                      @ template_of stringify (field m (js ''ComparisonArray''))))\<rparr>]
      else if field m (js ''type'') = Some (JString (js ''normal'')) then
        [\<lparr>role = js ''assistant'', content = field m (js ''output'')\<rparr>]
      else if field m (js ''role'') = Some (JString (js ''human'')) then
        [\<lparr>role = js ''human'', content = field m (js ''input'')\<rparr>]
      else [])"

section \<open>Evaluation of the definitions on concrete texts\<close>

lemmas json_eval =
  JSON_parse_def js_def is_ws_def is_digit_def parse_tokens_def lex_keyword_def
  lex_unsigned_def decimal_def digits_value_def lex_exp_digits_def
  unescape_def unicode_escape_def hex_value_def

lemma names_differ:
  "js ''type'' \<noteq> js ''output''" "js ''output'' \<noteq> js ''type''"
  "js ''fallback'' \<noteq> js ''normal''" "js ''fallback'' \<noteq> js ''Comparison''"
  "js ''normal'' \<noteq> js ''Comparison''" "js ''normal'' \<noteq> js ''fallback''"
  "js ''Comparison'' \<noteq> js ''normal''" "js ''Comparison'' \<noteq> js ''fallback''"
  by (simp_all add: js_def)

lemma field_fallback:
  "field (fallback msg) (js ''type'') = Some (JString (js ''fallback''))"
  "field (fallback msg) (js ''output'') = Some (JString msg)"
  by (simp_all add: fallback_def names_differ)

lemma fallback_inject: "fallback a = fallback b \<longleftrightarrow> a = b"
  by (simp add: fallback_def)

lemma fallback_shape:
  "is_Fallback (fallback msg) \<and> \<not> is_Normal (fallback msg) \<and> \<not> is_Comparison (fallback msg)"
  by (simp add: is_Fallback_def is_Normal_def is_Comparison_def field_fallback names_differ)

lemma parse_failure_message_unparsable: "JSON_parse parse_failure_message = Inl SyntaxError"
  by (simp add: parse_failure_message_def json_eval)

lemma messages_differ: "semantic_fallback_message \<noteq> parse_failure_message"
  by (simp add: semantic_fallback_message_def parse_failure_message_def js_def)

section \<open>The output normalizer\<close>

text \<open>What each variant answers to a text that does not parse, and to one that does.\<close>

lemma parseOutput_failed:
  assumes "JSON_parse output = Inl e"
  shows "parseOutput output = Inr (fallback parse_failure_message)"
    and "parseOutput_v2 output = Inr (fallback parse_failure_message)"
  using assms
  by (simp_all add: parseOutput_def parseOutput_try_def parseOutput_v2_def parseOutput_v2_try_def)

lemma isArray_truthy: "isArray x \<Longrightarrow> truthy x"
  by (cases x rule: isArray.cases) auto

lemma parseOutput_parsed:
  assumes "JSON_parse output = Inr v"
  shows "parseOutput output =
     (if v = JNull then Inr (fallback parse_failure_message)
      else if field v (js ''type'') = Some (JString (js ''Comparison'')) then
        (if isArray (field v (js ''ComparisonArray''))
            \<and> elements (field v (js ''ComparisonArray'')) \<noteq> []
         then Inr v else Inr (fallback semantic_fallback_message))
      else if field v (js ''type'') = Some (JString (js ''normal''))
              \<and> truthy (field v (js ''output'')) \<and> is_string (field v (js ''output''))
      then Inr v
      else Inr (fallback output))"
  using assms
  by (auto simp: parseOutput_def parseOutput_try_def get_field_def isArray_truthy)

lemma parseOutput_v2_parsed:
  assumes "JSON_parse output = Inr v"
  shows "parseOutput_v2 output =
     (if v = JNull then Inr (fallback parse_failure_message)
      else if field v (js ''type'') = Some (JString (js ''Comparison''))
              \<and> isArray (field v (js ''ComparisonArray''))
              \<and> elements (field v (js ''ComparisonArray'')) \<noteq> []
      then Inr v
      else if field v (js ''type'') = Some (JString (js ''normal''))
              \<and> is_string (field v (js ''output''))
      then Inr v
      else Inr (fallback parse_failure_message))"
  using assms
  by (auto simp: parseOutput_v2_def parseOutput_v2_try_def destructure_def)

text \<open>
  C1. A text that \<open>JSON.parse\<close> rejects is answered, by either variant of
  \<open>parseOutput\<close>, with the fallback carrying the fixed message "Failed to retrieve a
  valid response.". The answer is this one object for every such text: it is built from
  the constant message alone and nothing of the raw text is copied into it.
\<close>

theorem parseOutput_unparsable:
  assumes "normalizer = parseOutput \<or> normalizer = parseOutput_v2"
    and "JSON_parse output = Inl e"
  shows "normalizer output = Inr (fallback parse_failure_message)"
  using assms parseOutput_failed by auto

theorem parseOutput_unparsable_witness:
  "JSON_parse (js ''not json at all'') = Inl SyntaxError
   \<and> parseOutput (js ''not json at all'') =
       Inr (JObject [(js ''type'', JString (js ''fallback'')),
                     (js ''output'', JString (js ''Failed to retrieve a valid response.''))])
   \<and> parseOutput_v2 (js ''not json at all'') =
       Inr (JObject [(js ''type'', JString (js ''fallback'')),
                     (js ''output'', JString (js ''Failed to retrieve a valid response.''))])"
proof -
  have h: "JSON_parse (js ''not json at all'') = Inl SyntaxError"
    by (simp add: json_eval)
  have v1: "parseOutput = parseOutput \<or> parseOutput = parseOutput_v2"
    by simp
  have v2: "parseOutput_v2 = parseOutput \<or> parseOutput_v2 = parseOutput_v2"
    by simp
  show ?thesis
    using h parseOutput_unparsable [OF v1 h] parseOutput_unparsable [OF v2 h]
    by (simp add: fallback_def parse_failure_message_def)
qed

text \<open>
  C2 (as amended). A text that parses to an object whose \<open>type\<close> is "Comparison" and
  whose \<open>ComparisonArray\<close> is missing, is not an array, or is the empty array is
  answered by the first variant with the fallback carrying the message "The comparison
  did not retrieve enough details. Please try a different query.", which is not the
  parse-failure message; the second variant answers it with the parse-failure fallback.
\<close>

theorem parseOutput_comparison_without_array:
  assumes "JSON_parse output = Inr (JObject ms)"
    and "field (JObject ms) (js ''type'') = Some (JString (js ''Comparison''))"
    and "field (JObject ms) (js ''ComparisonArray'') = None
         \<or> \<not> isArray (field (JObject ms) (js ''ComparisonArray''))
         \<or> field (JObject ms) (js ''ComparisonArray'') = Some (JArray [])"
  shows "parseOutput output = Inr (fallback semantic_fallback_message)
         \<and> semantic_fallback_message \<noteq> parse_failure_message
         \<and> parseOutput_v2 output = Inr (fallback parse_failure_message)"
proof -
  have "parseOutput output = Inr (fallback semantic_fallback_message)"
    using assms by (auto simp: parseOutput_parsed)
  moreover have "parseOutput_v2 output = Inr (fallback parse_failure_message)"
    using assms by (auto simp: parseOutput_v2_parsed names_differ)
  ultimately show ?thesis
    using messages_differ by simp
qed

theorem parseOutput_comparison_without_array_witness:
  \<open>JSON_parse (js ''{"type":"Comparison","ComparisonArray":{}}'') =
     Inr (JObject [(js ''type'', JString (js ''Comparison'')), (js ''ComparisonArray'', JObject [])])
   \<and> parseOutput (js ''{"type":"Comparison","ComparisonArray":{}}'') =
     Inr (JObject [(js ''type'', JString (js ''fallback'')),
                   (js ''output'', JString (js
      ''The comparison did not retrieve enough details. Please try a different query.''))])
   \<and> parseOutput_v2 (js ''{"type":"Comparison","ComparisonArray":{}}'') =
     Inr (JObject [(js ''type'', JString (js ''fallback'')),
                   (js ''output'', JString (js ''Failed to retrieve a valid response.''))])\<close>
proof -
  let ?ms = "[(js ''type'', JString (js ''Comparison'')), (js ''ComparisonArray'', JObject [])]"
  have p: \<open>JSON_parse (js ''{"type":"Comparison","ComparisonArray":{}}'') = Inr (JObject ?ms)\<close>
    by (simp add: json_eval)
  have t: "field (JObject ?ms) (js ''type'') = Some (JString (js ''Comparison''))"
    by (simp add: js_def)
  have a: "field (JObject ?ms) (js ''ComparisonArray'') = None
         \<or> \<not> isArray (field (JObject ?ms) (js ''ComparisonArray''))
         \<or> field (JObject ?ms) (js ''ComparisonArray'') = Some (JArray [])"
    by (simp add: js_def)
  show ?thesis
    using p parseOutput_comparison_without_array [OF p t a]
    by (simp add: fallback_def semantic_fallback_message_def parse_failure_message_def)
qed

text \<open>
  C2 as stated fails on the second variant: the text of a "Comparison" with an empty
  array is answered there with the parse-failure message, not the semantic-fallback one.
\<close>

theorem parseOutput_comparison_without_array_counterexample:
  \<open>JSON_parse (js ''{"type":"Comparison","ComparisonArray":[]}'') =
     Inr (JObject [(js ''type'', JString (js ''Comparison'')), (js ''ComparisonArray'', JArray [])])
   \<and> parseOutput_v2 (js ''{"type":"Comparison","ComparisonArray":[]}'') =
     Inr (fallback parse_failure_message)
   \<and> fallback parse_failure_message \<noteq> fallback semantic_fallback_message\<close>
proof -
  have p: \<open>JSON_parse (js ''{"type":"Comparison","ComparisonArray":[]}'') =
     Inr (JObject [(js ''type'', JString (js ''Comparison'')), (js ''ComparisonArray'', JArray [])])\<close>
    by (simp add: json_eval)
  have r: \<open>parseOutput_v2 (js ''{"type":"Comparison","ComparisonArray":[]}'') =
     Inr (fallback parse_failure_message)\<close>
    using parseOutput_v2_parsed [OF p] by (simp add: js_def)
  from p r messages_differ show ?thesis
    by (simp add: fallback_inject)
qed

text \<open>
  C3 (as amended). A text that parses to a value other than \<open>null\<close> whose \<open>type\<close> is
  neither "Comparison" nor "normal", or whose \<open>type\<close> is "normal" while its \<open>output\<close>
  is not a non-empty string, is answered by the first variant with the fallback whose
  \<open>output\<close> is the raw text itself. The second variant never answers with the raw
  text: it answers such a text with the parse-failure fallback, or, when the value is
  a "normal" with an empty string for output, with the value itself.
\<close>

theorem parseOutput_echo:
  assumes "JSON_parse output = Inr v"
    and "v \<noteq> JNull"
    and "(field v (js ''type'') \<noteq> Some (JString (js ''Comparison''))
          \<and> field v (js ''type'') \<noteq> Some (JString (js ''normal'')))
         \<or> (field v (js ''type'') = Some (JString (js ''normal''))
             \<and> \<not> (truthy (field v (js ''output'')) \<and> is_string (field v (js ''output''))))"
  shows "parseOutput output = Inr (fallback output)
         \<and> field (fallback output) (js ''output'') = Some (JString output)
         \<and> parseOutput_v2 output = (if is_Normal v then Inr v else Inr (fallback parse_failure_message))
         \<and> parseOutput_v2 output \<noteq> Inr (fallback output)"
proof -
  have raw: "output \<noteq> parse_failure_message"
    using assms(1) parse_failure_message_unparsable by auto
  have shape: "fallback output \<noteq> v" if "is_Normal v"
    using that field_fallback(1) [of "output"] by (auto simp: is_Normal_def names_differ)
  have v1: "parseOutput output = Inr (fallback output)"
    using assms by (auto simp: parseOutput_parsed names_differ)
  have v2: "parseOutput_v2 output = (if is_Normal v then Inr v else Inr (fallback parse_failure_message))"
    using assms by (auto simp: parseOutput_v2_parsed is_Normal_def names_differ)
  from v2 raw shape have "parseOutput_v2 output \<noteq> Inr (fallback output)"
    by (auto simp: fallback_inject)
  with v1 v2 show ?thesis
    by (simp add: field_fallback)
qed

theorem parseOutput_echo_witness:
  \<open>parseOutput (js ''{"type":"summary","output":"hi"}'') =
     Inr (JObject [(js ''type'', JString (js ''fallback'')),
                   (js ''output'', JString (js ''{"type":"summary","output":"hi"}''))])
   \<and> parseOutput (js ''{"type":"normal","output":5}'') =
     Inr (JObject [(js ''type'', JString (js ''fallback'')),
                   (js ''output'', JString (js ''{"type":"normal","output":5}''))])\<close>
proof -
  let ?v1 = "JObject [(js ''type'', JString (js ''summary'')), (js ''output'', JString (js ''hi''))]"
  let ?v2 = "JObject [(js ''type'', JString (js ''normal'')), (js ''output'', JNumber 5)]"
  have p1: \<open>JSON_parse (js ''{"type":"summary","output":"hi"}'') = Inr ?v1\<close>
    by (simp add: json_eval)
  have p2: \<open>JSON_parse (js ''{"type":"normal","output":5}'') = Inr ?v2\<close>
    by (simp add: json_eval)
  have n1: "?v1 \<noteq> JNull" and n2: "?v2 \<noteq> JNull"
    by simp_all
  have c1: "(field ?v1 (js ''type'') \<noteq> Some (JString (js ''Comparison''))
          \<and> field ?v1 (js ''type'') \<noteq> Some (JString (js ''normal'')))
         \<or> (field ?v1 (js ''type'') = Some (JString (js ''normal''))
             \<and> \<not> (truthy (field ?v1 (js ''output'')) \<and> is_string (field ?v1 (js ''output''))))"
    by (simp add: js_def)
  have c2: "(field ?v2 (js ''type'') \<noteq> Some (JString (js ''Comparison''))
          \<and> field ?v2 (js ''type'') \<noteq> Some (JString (js ''normal'')))
         \<or> (field ?v2 (js ''type'') = Some (JString (js ''normal''))
             \<and> \<not> (truthy (field ?v2 (js ''output'')) \<and> is_string (field ?v2 (js ''output''))))"
    by (simp add: js_def)
  show ?thesis
    using parseOutput_echo [OF p1 n1 c1] parseOutput_echo [OF p2 n2 c2]
    by (simp add: fallback_def)
qed

text \<open>
  C3 as stated fails on the first variant: the text \<open>null\<close> parses, has neither
  discriminant, and is answered with the parse-failure message; and a "Comparison" whose
  array has the wrong type is answered with the semantic-fallback message. Neither
  answer carries the raw text.
\<close>

theorem parseOutput_echo_counterexample:
  \<open>JSON_parse (js ''null'') = Inr JNull
   \<and> parseOutput (js ''null'') = Inr (fallback parse_failure_message)
   \<and> fallback parse_failure_message \<noteq> fallback (js ''null'')
   \<and> JSON_parse (js ''{"type":"Comparison","ComparisonArray":"x"}'') =
       Inr (JObject [(js ''type'', JString (js ''Comparison'')),
                     (js ''ComparisonArray'', JString (js ''x''))])
   \<and> parseOutput (js ''{"type":"Comparison","ComparisonArray":"x"}'') =
       Inr (fallback semantic_fallback_message)
   \<and> fallback semantic_fallback_message \<noteq>
       fallback (js ''{"type":"Comparison","ComparisonArray":"x"}'')\<close>
proof -
  have p1: "JSON_parse (js ''null'') = Inr JNull"
    by (simp add: json_eval)
  have p2: \<open>JSON_parse (js ''{"type":"Comparison","ComparisonArray":"x"}'') =
       Inr (JObject [(js ''type'', JString (js ''Comparison'')),
                     (js ''ComparisonArray'', JString (js ''x''))])\<close>
    by (simp add: json_eval)
  have r1: "parseOutput (js ''null'') = Inr (fallback parse_failure_message)"
    using parseOutput_parsed [OF p1] by simp
  have r2: \<open>parseOutput (js ''{"type":"Comparison","ComparisonArray":"x"}'') =
       Inr (fallback semantic_fallback_message)\<close>
    using parseOutput_parsed [OF p2] by (simp add: js_def)
  have d1: "fallback parse_failure_message \<noteq> fallback (js ''null'')"
    by (simp add: fallback_def parse_failure_message_def js_def)
  have d2: \<open>fallback semantic_fallback_message \<noteq>
       fallback (js ''{"type":"Comparison","ComparisonArray":"x"}'')\<close>
    by (simp add: fallback_def semantic_fallback_message_def js_def)
  from p1 p2 r1 r2 d1 d2 show ?thesis by simp
qed

text \<open>
  C4 (as amended). A text that parses to a value whose \<open>type\<close> is "Comparison" with a
  non-empty array \<open>ComparisonArray\<close>, or whose \<open>type\<close> is "normal" with a non-empty
  string \<open>output\<close>, is answered by either variant with the parsed value itself, all its
  members included.
\<close>

theorem parseOutput_identity:
  assumes "JSON_parse output = Inr v"
    and "(field v (js ''type'') = Some (JString (js ''Comparison''))
          \<and> isArray (field v (js ''ComparisonArray''))
          \<and> elements (field v (js ''ComparisonArray'')) \<noteq> [])
         \<or> (field v (js ''type'') = Some (JString (js ''normal''))
             \<and> is_string (field v (js ''output''))
             \<and> field v (js ''output'') \<noteq> Some (JString []))"
  shows "parseOutput output = Inr v \<and> parseOutput_v2 output = Inr v"
proof -
  from assms(2) have "v \<noteq> JNull"
    by auto
  moreover have "truthy x" if "is_string x" "x \<noteq> Some (JString [])" for x
    using that by (cases x rule: is_string.cases) auto
  ultimately show ?thesis
    using assms by (auto simp: parseOutput_parsed parseOutput_v2_parsed names_differ)
qed

theorem parseOutput_identity_witness:
  \<open>parseOutput (js ''{"type":"Comparison","title":"A and B","ComparisonArray":[{"name":"A"}]}'') =
     Inr (JObject [(js ''type'', JString (js ''Comparison'')),
                   (js ''title'', JString (js ''A and B'')),
                   (js ''ComparisonArray'', JArray [JObject [(js ''name'', JString (js ''A''))]])])
   \<and> parseOutput (js ''{"type":"normal","output":"The NPP manifesto proposes X."}'') =
     Inr (JObject [(js ''type'', JString (js ''normal'')),
                   (js ''output'', JString (js ''The NPP manifesto proposes X.''))])\<close>
proof -
  let ?v1 = "JObject [(js ''type'', JString (js ''Comparison'')),
                   (js ''title'', JString (js ''A and B'')),
                   (js ''ComparisonArray'', JArray [JObject [(js ''name'', JString (js ''A''))]])]"
  let ?v2 = "JObject [(js ''type'', JString (js ''normal'')),
                   (js ''output'', JString (js ''The NPP manifesto proposes X.''))]"
  have p1: \<open>JSON_parse (js ''{"type":"Comparison","title":"A and B","ComparisonArray":[{"name":"A"}]}'')
      = Inr ?v1\<close>
    by (simp add: json_eval)
  have p2: \<open>JSON_parse (js ''{"type":"normal","output":"The NPP manifesto proposes X."}'') = Inr ?v2\<close>
    by (simp add: json_eval)
  have c1: "(field ?v1 (js ''type'') = Some (JString (js ''Comparison''))
          \<and> isArray (field ?v1 (js ''ComparisonArray''))
          \<and> elements (field ?v1 (js ''ComparisonArray'')) \<noteq> [])
         \<or> (field ?v1 (js ''type'') = Some (JString (js ''normal''))
             \<and> is_string (field ?v1 (js ''output''))
             \<and> field ?v1 (js ''output'') \<noteq> Some (JString []))"
    by (simp add: js_def)
  have c2: "(field ?v2 (js ''type'') = Some (JString (js ''Comparison''))
          \<and> isArray (field ?v2 (js ''ComparisonArray''))
          \<and> elements (field ?v2 (js ''ComparisonArray'')) \<noteq> [])
         \<or> (field ?v2 (js ''type'') = Some (JString (js ''normal''))
             \<and> is_string (field ?v2 (js ''output''))
             \<and> field ?v2 (js ''output'') \<noteq> Some (JString []))"
    by (simp add: js_def)
  show ?thesis
    using parseOutput_identity [OF p1 c1] parseOutput_identity [OF p2 c2]
    by simp
qed

text \<open>
  C4 as stated fails on the first variant: a "normal" value whose \<open>output\<close> is the empty
  string has a string-typed output, yet the answer is a fallback carrying the raw text,
  not the parsed value.
\<close>

theorem parseOutput_identity_counterexample:
  \<open>JSON_parse (js ''{"type":"normal","output":""}'') =
     Inr (JObject [(js ''type'', JString (js ''normal'')), (js ''output'', JString [])])
   \<and> is_string (field (JObject [(js ''type'', JString (js ''normal'')), (js ''output'', JString [])])
                      (js ''output''))
   \<and> parseOutput (js ''{"type":"normal","output":""}'') =
       Inr (fallback (js ''{"type":"normal","output":""}''))
   \<and> fallback (js ''{"type":"normal","output":""}'') \<noteq>
       JObject [(js ''type'', JString (js ''normal'')), (js ''output'', JString [])]\<close>
proof -
  have p: \<open>JSON_parse (js ''{"type":"normal","output":""}'') =
     Inr (JObject [(js ''type'', JString (js ''normal'')), (js ''output'', JString [])])\<close>
    by (simp add: json_eval)
  have s: "is_string (field (JObject [(js ''type'', JString (js ''normal'')), (js ''output'', JString [])])
                      (js ''output''))"
    by (simp add: js_def)
  have r: \<open>parseOutput (js ''{"type":"normal","output":""}'') =
       Inr (fallback (js ''{"type":"normal","output":""}''))\<close>
    using parseOutput_parsed [OF p] by (simp add: js_def)
  have d: \<open>fallback (js ''{"type":"normal","output":""}'') \<noteq>
       JObject [(js ''type'', JString (js ''normal'')), (js ''output'', JString [])]\<close>
    by (simp add: fallback_def js_def)
  from p s r d show ?thesis by simp
qed

lemma parseOutput_returns:
  "\<exists>r. parseOutput output = Inr r" "\<exists>r. parseOutput_v2 output = Inr r"
  by (auto simp: parseOutput_def parseOutput_v2_def split: sum.splits option.splits)

text \<open>
  C5 (as amended). \<open>parseOutput\<close>, in either variant, returns on every text and never
  throws, and its answer has exactly one of three forms: \<open>type\<close> "normal" with a string
  \<open>output\<close> (the Normal of the specification), \<open>type\<close> "Comparison" with a non-empty
  array \<open>ComparisonArray\<close>, or \<open>type\<close> "fallback" with a string \<open>output\<close> (the
  Fallback of the specification). Texts that parse to \<open>null\<close>, a number, a boolean or
  an array are among them. Of a "Comparison" nothing else is tested: its \<open>title\<close>, its
  \<open>keyPoints\<close> and the elements of its array are passed through as parsed.
\<close>

theorem parseOutput_total:
  assumes "normalizer = parseOutput \<or> normalizer = parseOutput_v2"
  shows "\<exists>r. normalizer output = Inr r
       \<and> ((is_Normal r \<and> \<not> is_Comparison r \<and> \<not> is_Fallback r)
          \<or> (is_Comparison r \<and> \<not> is_Normal r \<and> \<not> is_Fallback r)
          \<or> (is_Fallback r \<and> \<not> is_Normal r \<and> \<not> is_Comparison r))"
proof (cases "JSON_parse output")
  case (Inl e)
  with assms parseOutput_failed have "normalizer output = Inr (fallback parse_failure_message)"
    by auto
  with fallback_shape show ?thesis by simp
next
  case (Inr v)
  have "(parseOutput output = Inr v \<and> (is_Comparison v \<or> is_Normal v))
        \<or> (\<exists>msg. parseOutput output = Inr (fallback msg))"
    using parseOutput_parsed [OF Inr]
    by (auto simp: is_Comparison_def is_Normal_def split: if_splits)
  moreover have "(parseOutput_v2 output = Inr v \<and> (is_Comparison v \<or> is_Normal v))
        \<or> (\<exists>msg. parseOutput_v2 output = Inr (fallback msg))"
    using parseOutput_v2_parsed [OF Inr]
    by (auto simp: is_Comparison_def is_Normal_def split: if_splits)
  ultimately consider (same) "normalizer output = Inr v" "is_Comparison v \<or> is_Normal v"
    | (other) msg where "normalizer output = Inr (fallback msg)"
    using assms by auto
  then show ?thesis
  proof cases
    case same
    then show ?thesis
      by (auto simp: is_Comparison_def is_Normal_def is_Fallback_def names_differ)
  next
    case other
    with fallback_shape show ?thesis by simp
  qed
qed

theorem parseOutput_total_witness:
  \<open>parseOutput (js ''null'') = Inr (fallback parse_failure_message)
   \<and> parseOutput (js ''5'') = Inr (fallback (js ''5''))
   \<and> parseOutput (js ''true'') = Inr (fallback (js ''true''))
   \<and> parseOutput (js ''[1, true]'') = Inr (fallback (js ''[1, true]''))
   \<and> (\<exists>r. parseOutput (js ''null'') = Inr r
         \<and> is_Fallback r \<and> \<not> is_Normal r \<and> \<not> is_Comparison r)\<close>
proof -
  have p1: "JSON_parse (js ''null'') = Inr JNull"
    by (simp add: json_eval)
  have p2: "JSON_parse (js ''5'') = Inr (JNumber 5)"
    by (simp add: json_eval)
  have p3: "JSON_parse (js ''true'') = Inr (JBool True)"
    by (simp add: json_eval)
  have p4: "JSON_parse (js ''[1, true]'') = Inr (JArray [JNumber 1, JBool True])"
    by (simp add: json_eval)
  have r1: "parseOutput (js ''null'') = Inr (fallback parse_failure_message)"
    using parseOutput_parsed [OF p1] by simp
  have r2: "parseOutput (js ''5'') = Inr (fallback (js ''5''))"
    using parseOutput_parsed [OF p2] by simp
  have r3: "parseOutput (js ''true'') = Inr (fallback (js ''true''))"
    using parseOutput_parsed [OF p3] by simp
  have r4: "parseOutput (js ''[1, true]'') = Inr (fallback (js ''[1, true]''))"
    using parseOutput_parsed [OF p4] by simp
  have v: "parseOutput = parseOutput \<or> parseOutput = parseOutput_v2"
    by simp
  from r1 r2 r3 r4 show ?thesis
    using parseOutput_total [OF v, of "js ''null''"] by (auto simp: fallback_shape)
qed

text \<open>
  C5 as stated fails: the text of a "Comparison" whose array holds the number 1, with no
  title and no key points, is returned unchanged by both variants, and the value
  returned is neither a Normal, nor a Comparison as the specification defines it, nor a
  Fallback.
\<close>

theorem parseOutput_total_counterexample:
  \<open>parseOutput (js ''{"type":"Comparison","ComparisonArray":[1]}'') =
     Inr (JObject [(js ''type'', JString (js ''Comparison'')),
                   (js ''ComparisonArray'', JArray [JNumber 1])])
   \<and> parseOutput_v2 (js ''{"type":"Comparison","ComparisonArray":[1]}'') =
     Inr (JObject [(js ''type'', JString (js ''Comparison'')),
                   (js ''ComparisonArray'', JArray [JNumber 1])])
   \<and> \<not> is_Normal (JObject [(js ''type'', JString (js ''Comparison'')),
                            (js ''ComparisonArray'', JArray [JNumber 1])])
   \<and> \<not> canonical_Comparison (JObject [(js ''type'', JString (js ''Comparison'')),
                                       (js ''ComparisonArray'', JArray [JNumber 1])])
   \<and> \<not> is_Fallback (JObject [(js ''type'', JString (js ''Comparison'')),
                              (js ''ComparisonArray'', JArray [JNumber 1])])\<close>
proof -
  let ?v = "JObject [(js ''type'', JString (js ''Comparison'')),
                     (js ''ComparisonArray'', JArray [JNumber 1])]"
  have p: \<open>JSON_parse (js ''{"type":"Comparison","ComparisonArray":[1]}'') = Inr ?v\<close>
    by (simp add: json_eval)
  have r1: \<open>parseOutput (js ''{"type":"Comparison","ComparisonArray":[1]}'') = Inr ?v\<close>
    using parseOutput_parsed [OF p] by (simp add: js_def)
  have r2: \<open>parseOutput_v2 (js ''{"type":"Comparison","ComparisonArray":[1]}'') = Inr ?v\<close>
    using parseOutput_v2_parsed [OF p] by (simp add: js_def)
  have n: "\<not> is_Normal ?v"
    by (simp add: is_Normal_def js_def)
  have c: "\<not> canonical_Comparison ?v"
    by (simp add: canonical_Comparison_def js_def)
  have f: "\<not> is_Fallback ?v"
    by (simp add: is_Fallback_def js_def)
  from r1 r2 n c f show ?thesis by simp
qed

text \<open>
  C10 (as amended). The two variants of \<open>parseOutput\<close> give the same answer exactly on
  the texts that do not parse, that parse to \<open>null\<close>, or that parse to a value both pass
  through: a "Comparison" with a non-empty array, or a "normal" with a non-empty string
  \<open>output\<close>. On every other text their answers differ.
\<close>

theorem parseOutput_variants_agree:
  "parseOutput output = parseOutput_v2 output \<longleftrightarrow>
     (case JSON_parse output of
        Inl e \<Rightarrow> True
      | Inr v \<Rightarrow> v = JNull \<or> is_Comparison v \<or> (is_Normal v \<and> truthy (field v (js ''output''))))"
proof (cases "JSON_parse output")
  case (Inl e)
  then show ?thesis
    by (simp add: parseOutput_failed)
next
  case (Inr v)
  have raw: "output \<noteq> parse_failure_message"
    using Inr parse_failure_message_unparsable by auto
  have shape: "fallback output \<noteq> v" if "field v (js ''type'') = Some (JString (js ''normal''))"
    using that field_fallback(1) [of "output"] by (auto simp: names_differ)
  show ?thesis
    using raw shape messages_differ
    by (auto simp: Inr parseOutput_parsed [OF Inr] parseOutput_v2_parsed [OF Inr]
        is_Comparison_def is_Normal_def fallback_inject names_differ)
qed

theorem parseOutput_variants_agree_witness:
  \<open>parseOutput (js ''not json at all'') = parseOutput_v2 (js ''not json at all'')
   \<and> parseOutput (js ''{"type":"normal","output":"ok"}'') =
       parseOutput_v2 (js ''{"type":"normal","output":"ok"}'')
   \<and> parseOutput (js ''{"type":"normal","output":""}'') \<noteq>
       parseOutput_v2 (js ''{"type":"normal","output":""}'')\<close>
proof -
  have p1: "JSON_parse (js ''not json at all'') = Inl SyntaxError"
    by (simp add: json_eval)
  have p2: \<open>JSON_parse (js ''{"type":"normal","output":"ok"}'') =
      Inr (JObject [(js ''type'', JString (js ''normal'')), (js ''output'', JString (js ''ok''))])\<close>
    by (simp add: json_eval)
  have p3: \<open>JSON_parse (js ''{"type":"normal","output":""}'') =
      Inr (JObject [(js ''type'', JString (js ''normal'')), (js ''output'', JString [])])\<close>
    by (simp add: json_eval)
  have c1: "case JSON_parse (js ''not json at all'') of
        Inl e \<Rightarrow> True
      | Inr v \<Rightarrow> v = JNull \<or> is_Comparison v \<or> (is_Normal v \<and> truthy (field v (js ''output'')))"
    unfolding p1 by simp
  have c2: \<open>case JSON_parse (js ''{"type":"normal","output":"ok"}'') of
        Inl e \<Rightarrow> True
      | Inr v \<Rightarrow> v = JNull \<or> is_Comparison v \<or> (is_Normal v \<and> truthy (field v (js ''output'')))\<close>
    unfolding p2 by (simp add: is_Normal_def js_def)
  have c3: \<open>\<not> (case JSON_parse (js ''{"type":"normal","output":""}'') of
        Inl e \<Rightarrow> True
      | Inr v \<Rightarrow> v = JNull \<or> is_Comparison v \<or> (is_Normal v \<and> truthy (field v (js ''output''))))\<close>
    unfolding p3 by (simp add: is_Normal_def is_Comparison_def js_def)
  have a1: "parseOutput (js ''not json at all'') = parseOutput_v2 (js ''not json at all'')"
    using parseOutput_variants_agree c1 by blast
  have a2: \<open>parseOutput (js ''{"type":"normal","output":"ok"}'') =
       parseOutput_v2 (js ''{"type":"normal","output":"ok"}'')\<close>
    using parseOutput_variants_agree c2 by blast
  have a3: \<open>parseOutput (js ''{"type":"normal","output":""}'') \<noteq>
       parseOutput_v2 (js ''{"type":"normal","output":""}'')\<close>
    using parseOutput_variants_agree c3 by blast
  from a1 a2 a3 show ?thesis by blast
qed

text \<open>
  C10 as stated fails: a text that parses to a value of an unknown \<open>type\<close> is answered
  by the first variant with a fallback carrying the raw text and by the second with the
  parse-failure fallback.
\<close>

theorem parseOutput_variants_counterexample:
  \<open>parseOutput (js ''{"type":"summary","output":"hi"}'') =
     Inr (fallback (js ''{"type":"summary","output":"hi"}''))
   \<and> parseOutput_v2 (js ''{"type":"summary","output":"hi"}'') =
     Inr (fallback parse_failure_message)
   \<and> parseOutput (js ''{"type":"summary","output":"hi"}'') \<noteq>
     parseOutput_v2 (js ''{"type":"summary","output":"hi"}'')\<close>
proof -
  have p: \<open>JSON_parse (js ''{"type":"summary","output":"hi"}'') =
     Inr (JObject [(js ''type'', JString (js ''summary'')), (js ''output'', JString (js ''hi''))])\<close>
    by (simp add: json_eval)
  have r1: \<open>parseOutput (js ''{"type":"summary","output":"hi"}'') =
     Inr (fallback (js ''{"type":"summary","output":"hi"}''))\<close>
    using parseOutput_parsed [OF p] by (simp add: js_def)
  have r2: \<open>parseOutput_v2 (js ''{"type":"summary","output":"hi"}'') =
     Inr (fallback parse_failure_message)\<close>
    using parseOutput_v2_parsed [OF p] by (simp add: js_def)
  have d: \<open>js ''{"type":"summary","output":"hi"}'' \<noteq> parse_failure_message\<close>
    by (simp add: parse_failure_message_def js_def)
  from r1 r2 d show ?thesis
    by (simp add: fallback_inject)
qed

section \<open>The history formatter\<close>

lemma format_message_not_null:
  assumes "m \<noteq> JNull"
  shows "\<exists>r. format_message stringify m = Inr r
             \<and> formatted_entry stringify m = (case r of None \<Rightarrow> [] | Some x \<Rightarrow> [x])"
  using assms by (simp add: format_message_def formatted_entry_def get_field_def)

lemma map_format_message:
  assumes "JNull \<notin> set history"
  shows "\<exists>ms. map_exn (format_message stringify) history = Inr ms
              \<and> map the (filter (\<lambda>msg. msg \<noteq> None) ms)
                  = concat (map (formatted_entry stringify) history)"
  using assms
proof (induction history)
  case Nil
  then show ?case by simp
next
  case (Cons m history)
  from Cons.prems have "m \<noteq> JNull" and rest: "JNull \<notin> set history"
    by auto
  from format_message_not_null [OF this(1)] obtain r where
    r: "format_message stringify m = Inr r"
       "formatted_entry stringify m = (case r of None \<Rightarrow> [] | Some x \<Rightarrow> [x])"
    by blast
  from Cons.IH [OF rest] obtain ms where
    ms: "map_exn (format_message stringify) history = Inr ms"
        "map the (filter (\<lambda>msg. msg \<noteq> None) ms) = concat (map (formatted_entry stringify) history)"
    by blast
  from r ms show ?case
    by (cases r) simp_all
qed

text \<open>A \<open>null\<close> entry anywhere in the history makes the formatter throw.\<close>

lemma map_format_message_null:
  assumes "JNull \<in> set history"
  shows "map_exn (format_message stringify) history = Inl TypeError"
  using assms
proof (induction history)
  case Nil
  then show ?case by simp
next
  case (Cons m history)
  show ?case
  proof (cases "m = JNull")
    case True
    then show ?thesis
      by (simp add: format_message_def get_field_def)
  next
    case False
    with Cons have "map_exn (format_message stringify) history = Inl TypeError"
      by simp
    moreover from format_message_not_null [OF False] obtain r where
      "format_message stringify m = Inr r"
      by blast
    ultimately show ?thesis by simp
  qed
qed

lemma formatConversationHistory_null:
  assumes "JNull \<in> set history"
  shows "formatConversationHistory stringify history = Inl TypeError"
  using map_format_message_null [OF assms]
  by (simp add: formatConversationHistory_def)

text \<open>
  C7 (as amended). On a history with no \<open>null\<close> entry the formatter returns, and its
  result is, entry by entry and in order, what \<open>formatted_entry\<close> says: one assistant
  message for a "Comparison" entry, otherwise one assistant message for a "normal"
  entry, otherwise one human message for an entry of role "human", and nothing for any
  other entry (a Fallback among them).
\<close>

theorem formatConversationHistory_entries:
  assumes "JNull \<notin> set history"
  shows "formatConversationHistory stringify history
           = Inr (concat (map (formatted_entry stringify) history))"
  using map_format_message [OF assms, of stringify]
  by (auto simp: formatConversationHistory_def)

theorem formatConversationHistory_entries_witness:
  "formatConversationHistory (\<lambda>v. js ''[]'')
     [JObject [(js ''role'', JString (js ''human'')), (js ''input'', JString (js ''Hello''))],
      JObject [(js ''type'', JString (js ''fallback'')), (js ''output'', JString (js ''not json''))],
      JObject [(js ''type'', JString (js ''normal'')), (js ''output'', JString (js ''Hi''))],
      JNumber 7,
      JObject [(js ''type'', JString (js ''Comparison'')), (js ''ComparisonArray'', JArray [])]]
   = Inr [\<lparr>role = js ''human'', content = Some (JString (js ''Hello''))\<rparr>,
          \<lparr>role = js ''assistant'', content = Some (JString (js ''Hi''))\<rparr>,
          \<lparr>role = js ''assistant'', content = Some (JString (js ''Comparison: []''))\<rparr>]"
proof -
  let ?h = "[JObject [(js ''role'', JString (js ''human'')), (js ''input'', JString (js ''Hello''))],
      JObject [(js ''type'', JString (js ''fallback'')), (js ''output'', JString (js ''not json''))],
      JObject [(js ''type'', JString (js ''normal'')), (js ''output'', JString (js ''Hi''))],
      JNumber 7,
      JObject [(js ''type'', JString (js ''Comparison'')), (js ''ComparisonArray'', JArray [])]]"
  have n: "JNull \<notin> set ?h"
    by simp
  show ?thesis
    using formatConversationHistory_entries [OF n, of "\<lambda>v. js ''[]''"]
    by (simp add: formatted_entry_def template_of_def js_def)
qed

text \<open>
  C7 as stated fails. An entry that is \<open>null\<close> makes the formatter throw a TypeError,
  whatever the serialiser; and an entry of role "human" that also has \<open>type\<close> "normal"
  gives an assistant message with its output, not a human message with its input.
\<close>

theorem formatConversationHistory_counterexample:
  "formatConversationHistory (\<lambda>v. js ''[]'') [JNull] = Inl TypeError
   \<and> formatConversationHistory (\<lambda>v. js ''[]'')
       [JObject [(js ''role'', JString (js ''human'')), (js ''input'', JString (js ''q'')),
                 (js ''type'', JString (js ''normal'')), (js ''output'', JString (js ''a''))]]
     = Inr [\<lparr>role = js ''assistant'', content = Some (JString (js ''a''))\<rparr>]"
  by (simp add: formatConversationHistory_def format_message_def get_field_def js_def)

section \<open>The turn orchestrator\<close>

text \<open>What the \<open>try\<close> block writes when it does not throw: always the status 200 answer.\<close>

lemma query_try_answer:
  assumes "query_try outputParser stringify agentExecutor inp history = (Inr h, calls)"
  shows "\<exists>formattedHistory agentOutput response.
           formatConversationHistory stringify history = Inr formattedHistory
           \<and> agentExecutor inp formattedHistory = Inr agentOutput
           \<and> outputParser agentOutput = Inr response
           \<and> h = Http 200 (JObject
                   [(js ''response'', response),
                    (js ''chat_history'', JArray (history @ [human_turn inp, response]))])
           \<and> calls = [Invoke inp formattedHistory]"
  using assms by (auto simp: query_try_def split: sum.splits)

lemma isArray_elements: "isArray x \<Longrightarrow> x = Some (JArray (elements x))"
  by (cases x rule: isArray.cases) auto

lemma truthy_defined: "truthy x \<Longrightarrow> \<exists>v. x = Some v"
  by (cases x) auto

text \<open>The answer of a turn that passed the guard and got its agent, when it is a 200.\<close>

lemma turn_answer:
  assumes "truthy (input req)" and "isArray (chat_history req)"
    and "fst (catch_500 (query_try outputParser stringify agentExecutor
                (input req) (elements (chat_history req)))) = Inr (Http 200 body)"
  shows "\<exists>history inp response formattedHistory agentOutput.
           chat_history req = Some (JArray history)
           \<and> input req = Some inp
           \<and> body = JObject
                [(js ''response'', response),
                 (js ''chat_history'',
                    JArray (history @ [JObject [(js ''role'', JString (js ''human'')), (js ''input'', inp)],
                                       response]))]
           \<and> formatConversationHistory stringify history = Inr formattedHistory
           \<and> agentExecutor (Some inp) formattedHistory = Inr agentOutput
           \<and> outputParser agentOutput = Inr response"
proof -
  from truthy_defined [OF assms(1)] obtain inp where inp: "input req = Some inp"
    by blast
  from isArray_elements [OF assms(2)] obtain history where
    history: "chat_history req = Some (JArray history)" "elements (chat_history req) = history"
    by auto
  obtain r calls where
    t: "query_try outputParser stringify agentExecutor (Some inp) history = (r, calls)"
    by (cases "query_try outputParser stringify agentExecutor (Some inp) history") auto
  from assms(3) inp history t have "r = Inr (Http 200 body)"
    by (cases r) (auto simp: catch_500_def)
  with t query_try_answer obtain formattedHistory agentOutput response where
    "formatConversationHistory stringify history = Inr formattedHistory"
    "agentExecutor (Some inp) formattedHistory = Inr agentOutput"
    "outputParser agentOutput = Inr response"
    "Http 200 body = Http 200 (JObject
         [(js ''response'', response),
          (js ''chat_history'', JArray (history @ [human_turn (Some inp), response]))])"
    by blast
  with inp history show ?thesis
    by (auto simp: human_turn_def)
qed

text \<open>A turn that passed the guard and whose collaborators succeed is answered with 200.\<close>

lemma query_try_succeeds:
  assumes "formatConversationHistory stringify history = Inr formattedHistory"
    and "agentExecutor inp formattedHistory = Inr agentOutput"
    and "outputParser agentOutput = Inr response"
  shows "catch_500 (query_try outputParser stringify agentExecutor inp history)
           = (Inr (Http 200 (JObject
                [(js ''response'', response),
                 (js ''chat_history'', JArray (history @ [human_turn inp, response]))])),
              [Invoke inp formattedHistory])"
  using assms by (simp add: query_try_def catch_500_def)

text \<open>
  C6. Every valid request whose collaborators succeed is a successful turn, in either
  variant: the agent is acquired, it is invoked once with the input and the formatted
  history, and the handler answers with status 200. The history returned is the history
  given with exactly two entries added at the end, first \<open>{ role: "human", input }\<close>
  and then the normalized response: the entries given stand before them unchanged. The
  response returned is the second entry added, and it is what the variant's
  \<open>parseOutput\<close> made of the text the agent returned. Conversely, every answer with
  status 200 is of this form.
\<close>

theorem query_handler_appends:
  assumes "(handler, normalizer) = (query_handler, parseOutput)
           \<or> (handler, normalizer) = (query_handler_v2, parseOutput_v2)"
  shows "(truthy (Some inp)
          \<and> formatConversationHistory stringify history = Inr formattedHistory
          \<and> agentExecutor (Some inp) formattedHistory = Inr agentOutput
          \<longrightarrow> (\<exists>response.
                 normalizer agentOutput = Inr response
                 \<and> handler stringify (Inr agentExecutor)
                       \<lparr>input = Some inp, chat_history = Some (JArray history)\<rparr>
                     = (Inr (Http 200 (JObject
                          [(js ''response'', response),
                           (js ''chat_history'',
                              JArray (history
                                @ [JObject [(js ''role'', JString (js ''human'')), (js ''input'', inp)],
                                   response]))])),
                        [InitializeAgent, Invoke (Some inp) formattedHistory])))
         \<and> (fst (handler stringify initializeAgent req) = Inr (Http 200 body)
            \<longrightarrow> (\<exists>history' inp' response agentExecutor' formattedHistory' agentOutput'.
                   chat_history req = Some (JArray history')
                   \<and> input req = Some inp'
                   \<and> body = JObject
                        [(js ''response'', response),
                         (js ''chat_history'',
                            JArray (history'
                              @ [JObject [(js ''role'', JString (js ''human'')), (js ''input'', inp')],
                                 response]))]
                   \<and> initializeAgent = Inr agentExecutor'
                   \<and> formatConversationHistory stringify history' = Inr formattedHistory'
                   \<and> agentExecutor' (Some inp') formattedHistory' = Inr agentOutput'
                   \<and> normalizer agentOutput' = Inr response))"
proof (intro conjI impI)
  assume a: "truthy (Some inp)
          \<and> formatConversationHistory stringify history = Inr formattedHistory
          \<and> agentExecutor (Some inp) formattedHistory = Inr agentOutput"
  from assms parseOutput_returns [of agentOutput] obtain response where
    r: "normalizer agentOutput = Inr response"
    by auto
  from a r have t: "catch_500 (query_try normalizer stringify agentExecutor (Some inp) history)
           = (Inr (Http 200 (JObject
                [(js ''response'', response),
                 (js ''chat_history'', JArray (history @ [human_turn (Some inp), response]))])),
              [Invoke (Some inp) formattedHistory])"
    by (simp add: query_try_succeeds)
  from assms a t have "handler stringify (Inr agentExecutor)
                       \<lparr>input = Some inp, chat_history = Some (JArray history)\<rparr>
                     = (Inr (Http 200 (JObject
                          [(js ''response'', response),
                           (js ''chat_history'',
                              JArray (history
                                @ [JObject [(js ''role'', JString (js ''human'')), (js ''input'', inp)],
                                   response]))])),
                        [InitializeAgent, Invoke (Some inp) formattedHistory])"
    by (auto simp: query_handler_def query_handler_v2_def human_turn_def)
  with r show "\<exists>response.
                 normalizer agentOutput = Inr response
                 \<and> handler stringify (Inr agentExecutor)
                       \<lparr>input = Some inp, chat_history = Some (JArray history)\<rparr>
                     = (Inr (Http 200 (JObject
                          [(js ''response'', response),
                           (js ''chat_history'',
                              JArray (history
                                @ [JObject [(js ''role'', JString (js ''human'')), (js ''input'', inp)],
                                   response]))])),
                        [InitializeAgent, Invoke (Some inp) formattedHistory])"
    by blast
next
  assume h: "fst (handler stringify initializeAgent req) = Inr (Http 200 body)"
  from assms h have ok: "truthy (input req)" "isArray (chat_history req)"
    by (auto simp: query_handler_def query_handler_v2_def split: if_splits)
  from assms h ok obtain agentExecutor' where agent: "initializeAgent = Inr agentExecutor'"
    by (cases initializeAgent) (auto simp: query_handler_def query_handler_v2_def catch_500_def)
  from assms h ok agent have
    "fst (catch_500 (query_try normalizer stringify agentExecutor'
            (input req) (elements (chat_history req)))) = Inr (Http 200 body)"
    by (auto simp: query_handler_def query_handler_v2_def split: prod.splits)
  from turn_answer [OF ok this] agent
  show "\<exists>history' inp' response agentExecutor' formattedHistory' agentOutput'.
                   chat_history req = Some (JArray history')
                   \<and> input req = Some inp'
                   \<and> body = JObject
                        [(js ''response'', response),
                         (js ''chat_history'',
                            JArray (history'
                              @ [JObject [(js ''role'', JString (js ''human'')), (js ''input'', inp')],
                                 response]))]
                   \<and> initializeAgent = Inr agentExecutor'
                   \<and> formatConversationHistory stringify history' = Inr formattedHistory'
                   \<and> agentExecutor' (Some inp') formattedHistory' = Inr agentOutput'
                   \<and> normalizer agentOutput' = Inr response"
    by blast
qed

theorem query_handler_appends_witness:
  \<open>query_handler (\<lambda>v. js ''[]'')
      (Inr (\<lambda>i h. Inr (js ''{"type":"normal","output":"Fine"}'')))
      \<lparr>input = Some (JString (js ''And B?'')),
       chat_history = Some (JArray
         [JObject [(js ''role'', JString (js ''human'')), (js ''input'', JString (js ''Hello''))],
          JObject [(js ''type'', JString (js ''normal'')), (js ''output'', JString (js ''Hi''))]])\<rparr>
   = (Inr (Http 200 (JObject
       [(js ''response'',
           JObject [(js ''type'', JString (js ''normal'')), (js ''output'', JString (js ''Fine''))]),
        (js ''chat_history'',
           JArray [JObject [(js ''role'', JString (js ''human'')), (js ''input'', JString (js ''Hello''))],
                   JObject [(js ''type'', JString (js ''normal'')), (js ''output'', JString (js ''Hi''))],
                   JObject [(js ''role'', JString (js ''human'')), (js ''input'', JString (js ''And B?''))],
                   JObject [(js ''type'', JString (js ''normal'')), (js ''output'', JString (js ''Fine''))]])])),
      [InitializeAgent,
       Invoke (Some (JString (js ''And B?'')))
         [\<lparr>role = js ''human'', content = Some (JString (js ''Hello''))\<rparr>,
          \<lparr>role = js ''assistant'', content = Some (JString (js ''Hi''))\<rparr>]])
   \<and> query_handler_v2 (\<lambda>v. js ''[]'')
      (Inr (\<lambda>i h. Inr (js ''{"type":"Comparison","ComparisonArray":[]}'')))
      \<lparr>input = Some (JString (js ''And B?'')),
       chat_history = Some (JArray
         [JObject [(js ''role'', JString (js ''human'')), (js ''input'', JString (js ''Hello''))],
          JObject [(js ''type'', JString (js ''normal'')), (js ''output'', JString (js ''Hi''))]])\<rparr>
   = (Inr (Http 200 (JObject
       [(js ''response'', fallback parse_failure_message),
        (js ''chat_history'',
           JArray [JObject [(js ''role'', JString (js ''human'')), (js ''input'', JString (js ''Hello''))],
                   JObject [(js ''type'', JString (js ''normal'')), (js ''output'', JString (js ''Hi''))],
                   JObject [(js ''role'', JString (js ''human'')), (js ''input'', JString (js ''And B?''))],
                   fallback parse_failure_message])])),
      [InitializeAgent,
       Invoke (Some (JString (js ''And B?'')))
         [\<lparr>role = js ''human'', content = Some (JString (js ''Hello''))\<rparr>,
          \<lparr>role = js ''assistant'', content = Some (JString (js ''Hi''))\<rparr>]])
   \<and> (\<exists>agentOutput.
         (Inr (js ''{"type":"normal","output":"Fine"}'') :: exn + jstring) = Inr agentOutput
         \<and> parseOutput agentOutput =
             Inr (JObject [(js ''type'', JString (js ''normal'')), (js ''output'', JString (js ''Fine''))]))\<close>
proof -
  let ?S = "\<lambda>v::json. js ''[]''"
  let ?inp = "JString (js ''And B?'')"
  let ?h = "[JObject [(js ''role'', JString (js ''human'')), (js ''input'', JString (js ''Hello''))],
          JObject [(js ''type'', JString (js ''normal'')), (js ''output'', JString (js ''Hi''))]]"
  let ?fh = "[\<lparr>role = js ''human'', content = Some (JString (js ''Hello''))\<rparr>,
          \<lparr>role = js ''assistant'', content = Some (JString (js ''Hi''))\<rparr>]"
  let ?o1 = \<open>js ''{"type":"normal","output":"Fine"}''\<close>
  let ?o2 = \<open>js ''{"type":"Comparison","ComparisonArray":[]}''\<close>
  let ?a1 = "\<lambda>(i::jsval) (h::message list). (Inr ?o1 :: exn + jstring)"
  let ?a2 = "\<lambda>(i::jsval) (h::message list). (Inr ?o2 :: exn + jstring)"
  let ?r1 = "JObject [(js ''type'', JString (js ''normal'')), (js ''output'', JString (js ''Fine''))]"
  have g: "truthy (Some ?inp)"
    by (simp add: js_def)
  have f: "formatConversationHistory ?S ?h = Inr ?fh"
    by (simp add: formatConversationHistory_def format_message_def get_field_def js_def)
  have p1: "JSON_parse ?o1 = Inr ?r1"
    by (simp add: json_eval)
  have p2: "JSON_parse ?o2 = Inr (JObject [(js ''type'', JString (js ''Comparison'')),
                                           (js ''ComparisonArray'', JArray [])])"
    by (simp add: json_eval)
  have n1: "parseOutput ?o1 = Inr ?r1"
    using parseOutput_parsed [OF p1] by (simp add: js_def)
  have n2: "parseOutput_v2 ?o2 = Inr (fallback parse_failure_message)"
    using parseOutput_v2_parsed [OF p2] by (simp add: js_def)
  have v1: "(query_handler, parseOutput) = (query_handler, parseOutput)
           \<or> (query_handler, parseOutput) = (query_handler_v2, parseOutput_v2)"
    by simp
  have v2: "(query_handler_v2, parseOutput_v2) = (query_handler, parseOutput)
           \<or> (query_handler_v2, parseOutput_v2) = (query_handler_v2, parseOutput_v2)"
    by simp
  have t1: "\<exists>response. parseOutput ?o1 = Inr response
      \<and> query_handler ?S (Inr ?a1) \<lparr>input = Some ?inp, chat_history = Some (JArray ?h)\<rparr>
        = (Inr (Http 200 (JObject
             [(js ''response'', response),
              (js ''chat_history'',
                 JArray (?h @ [JObject [(js ''role'', JString (js ''human'')), (js ''input'', ?inp)],
                               response]))])),
           [InitializeAgent, Invoke (Some ?inp) ?fh])"
    using query_handler_appends [where handler = query_handler and normalizer = parseOutput
          and inp = ?inp and stringify = ?S and history = ?h and formattedHistory = ?fh
          and agentExecutor = ?a1 and agentOutput = ?o1, OF v1, THEN conjunct1] g f
    by blast
  have t2: "\<exists>response. parseOutput_v2 ?o2 = Inr response
      \<and> query_handler_v2 ?S (Inr ?a2) \<lparr>input = Some ?inp, chat_history = Some (JArray ?h)\<rparr>
        = (Inr (Http 200 (JObject
             [(js ''response'', response),
              (js ''chat_history'',
                 JArray (?h @ [JObject [(js ''role'', JString (js ''human'')), (js ''input'', ?inp)],
                               response]))])),
           [InitializeAgent, Invoke (Some ?inp) ?fh])"
    using query_handler_appends [where handler = query_handler_v2 and normalizer = parseOutput_v2
          and inp = ?inp and stringify = ?S and history = ?h and formattedHistory = ?fh
          and agentExecutor = ?a2 and agentOutput = ?o2, OF v2, THEN conjunct1] g f
    by blast
  from t1 n1 have c1: "fst (query_handler ?S (Inr ?a1) \<lparr>input = Some ?inp, chat_history = Some (JArray ?h)\<rparr>)
        = Inr (Http 200 (JObject
             [(js ''response'', ?r1),
              (js ''chat_history'',
                 JArray (?h @ [JObject [(js ''role'', JString (js ''human'')), (js ''input'', ?inp)],
                               ?r1]))]))"
    by auto
  have t3: "\<exists>agentOutput. (Inr ?o1 :: exn + jstring) = Inr agentOutput \<and> parseOutput agentOutput = Inr ?r1"
    using query_handler_appends [where handler = query_handler and normalizer = parseOutput
          and stringify = ?S and initializeAgent = "Inr ?a1"
          and req = "\<lparr>input = Some ?inp, chat_history = Some (JArray ?h)\<rparr>",
          OF v1, THEN conjunct2, rule_format, OF c1]
    by auto
  from t1 n1 t2 n2 t3 show ?thesis
    by auto
qed

lemma catch_500_status:
  "fst (catch_500 (query_try outputParser stringify agentExecutor inp history)) \<noteq> Inr (Http 400 body)"
proof (cases "query_try outputParser stringify agentExecutor inp history")
  case (Pair r calls)
  show ?thesis
  proof (cases r)
    case (Inl e)
    with Pair show ?thesis by (simp add: catch_500_def)
  next
    case (Inr h)
    with Pair query_try_answer [of outputParser stringify agentExecutor inp history h calls]
    show ?thesis by (auto simp: catch_500_def)
  qed
qed

lemma query_handler_not_400:
  assumes "truthy (input req)" and "isArray (chat_history req)"
  shows "fst (query_handler stringify initializeAgent req) \<noteq> Inr (Http 400 body)"
    and "fst (query_handler_v2 stringify initializeAgent req) \<noteq> Inr (Http 400 body)"
proof -
  show "fst (query_handler stringify initializeAgent req) \<noteq> Inr (Http 400 body)"
  proof (cases initializeAgent)
    case (Inl e)
    with assms show ?thesis by (simp add: query_handler_def)
  next
    case (Inr agentExecutor)
    with assms
      catch_500_status [of parseOutput stringify agentExecutor "input req" "elements (chat_history req)" body]
    show ?thesis by (auto simp: query_handler_def split: prod.splits)
  qed
  show "fst (query_handler_v2 stringify initializeAgent req) \<noteq> Inr (Http 400 body)"
  proof (cases initializeAgent)
    case (Inl e)
    with assms show ?thesis by (simp add: query_handler_v2_def catch_500_def)
  next
    case (Inr agentExecutor)
    with assms
      catch_500_status [of parseOutput_v2 stringify agentExecutor "input req" "elements (chat_history req)" body]
    show ?thesis by (auto simp: query_handler_v2_def split: prod.splits)
  qed
qed

text \<open>
  C8 (as amended). The handler, in either variant, answers with status 400 exactly when
  \<open>input\<close> is falsy (absent, \<open>null\<close>, \<open>false\<close>, a zero number or the empty string) or
  \<open>chat_history\<close> is not an array; and when it does, it has called no collaborator:
  neither \<open>initializeAgent\<close> nor the agent, through which alone a retriever is reached.
\<close>

theorem query_handler_rejects:
  assumes "handler = query_handler \<or> handler = query_handler_v2"
  shows "((\<exists>body. fst (handler stringify initializeAgent req) = Inr (Http 400 body))
           \<longleftrightarrow> (\<not> truthy (input req) \<or> \<not> isArray (chat_history req)))
         \<and> (\<not> truthy (input req) \<or> \<not> isArray (chat_history req)
            \<longrightarrow> handler stringify initializeAgent req = (Inr (Http 400 invalid_request), []))"
proof -
  have "fst (handler stringify initializeAgent req) \<noteq> Inr (Http 400 body)"
    if "truthy (input req)" "isArray (chat_history req)" for body
    using assms query_handler_not_400 [OF that] by auto
  moreover have "handler stringify initializeAgent req = (Inr (Http 400 invalid_request), [])"
    if "\<not> truthy (input req) \<or> \<not> isArray (chat_history req)"
    using that assms by (auto simp: query_handler_def query_handler_v2_def)
  ultimately show ?thesis
    by (metis fst_conv)
qed

theorem query_handler_rejects_witness:
  "query_handler (\<lambda>v. js ''[]'') (Inr (\<lambda>i h. Inr (js ''hi'')))
     \<lparr>input = Some (JString (js ''Hello'')), chat_history = Some (JString (js ''none''))\<rparr>
     = (Inr (Http 400 (JObject [(js ''error'', JString (js ''Input and chat history are required''))])), [])
   \<and> query_handler (\<lambda>v. js ''[]'') (Inr (\<lambda>i h. Inr (js ''hi'')))
     \<lparr>input = Some (JString []), chat_history = Some (JArray [])\<rparr>
     = (Inr (Http 400 (JObject [(js ''error'', JString (js ''Input and chat history are required''))])), [])
   \<and> query_handler_v2 (\<lambda>v. js ''[]'') (Inr (\<lambda>i h. Inr (js ''hi'')))
     \<lparr>input = None, chat_history = Some (JArray [])\<rparr>
     = (Inr (Http 400 (JObject [(js ''error'', JString (js ''Input and chat history are required''))])), [])"
proof -
  let ?agent = "Inr (\<lambda>(i::jsval) (h::message list). (Inr (js ''hi'') :: exn + jstring))"
  let ?r1 = "\<lparr>input = Some (JString (js ''Hello'')), chat_history = Some (JString (js ''none''))\<rparr>"
  let ?r2 = "\<lparr>input = Some (JString []), chat_history = Some (JArray [])\<rparr>"
  let ?r3 = "\<lparr>input = None, chat_history = Some (JArray [])\<rparr>"
  have v1: "query_handler = query_handler \<or> query_handler = query_handler_v2"
    by simp
  have v2: "query_handler_v2 = query_handler \<or> query_handler_v2 = query_handler_v2"
    by simp
  have g1: "\<not> truthy (input ?r1) \<or> \<not> isArray (chat_history ?r1)"
    by simp
  have g2: "\<not> truthy (input ?r2) \<or> \<not> isArray (chat_history ?r2)"
    by simp
  have g3: "\<not> truthy (input ?r3) \<or> \<not> isArray (chat_history ?r3)"
    by simp
  from g1 query_handler_rejects [OF v1, of "\<lambda>v. js ''[]''" ?agent ?r1]
  have a1: "query_handler (\<lambda>v. js ''[]'') ?agent ?r1 = (Inr (Http 400 invalid_request), [])"
    by blast
  from g2 query_handler_rejects [OF v1, of "\<lambda>v. js ''[]''" ?agent ?r2]
  have a2: "query_handler (\<lambda>v. js ''[]'') ?agent ?r2 = (Inr (Http 400 invalid_request), [])"
    by blast
  from g3 query_handler_rejects [OF v2, of "\<lambda>v. js ''[]''" ?agent ?r3]
  have a3: "query_handler_v2 (\<lambda>v. js ''[]'') ?agent ?r3 = (Inr (Http 400 invalid_request), [])"
    by blast
  from a1 a2 a3 show ?thesis
    by (simp add: invalid_request_def)
qed

text \<open>
  C8 as stated fails: the input \<open>true\<close> is not a non-empty string, yet the request is
  not rejected; the agent is built and invoked and the turn is answered with status 200.
\<close>

theorem query_handler_rejects_counterexample:
  "\<not> is_string (Some (JBool True))
   \<and> query_handler (\<lambda>v. js ''[]'') (Inr (\<lambda>i h. Inr (js ''hi'')))
       \<lparr>input = Some (JBool True), chat_history = Some (JArray [])\<rparr>
     = (Inr (Http 200 (JObject
          [(js ''response'', fallback parse_failure_message),
           (js ''chat_history'',
              JArray [JObject [(js ''role'', JString (js ''human'')), (js ''input'', JBool True)],
                      fallback parse_failure_message])])),
        [InitializeAgent, Invoke (Some (JBool True)) []])"
proof -
  have p: "JSON_parse (js ''hi'') = Inl SyntaxError"
    by (simp add: json_eval)
  have r: "parseOutput (js ''hi'') = Inr (fallback parse_failure_message)"
    using parseOutput_failed(1) [OF p] .
  have f: "formatConversationHistory (\<lambda>v. js ''[]'') [] = Inr []"
    by (simp add: formatConversationHistory_def)
  show ?thesis
    by (simp add: query_handler_def catch_500_def query_try_def f r human_turn_def)
qed

text \<open>
  C9. When the agent cannot be acquired, the first variant of the handler writes no
  answer at all: \<open>initializeAgent()\<close> is awaited before the \<open>try\<close> block, so its
  rejection leaves the handler and the processing-error answer of the \<open>catch\<close> clause
  is never written.
\<close>

theorem query_handler_agent_acquisition_fails:
  assumes "truthy (input req)" and "isArray (chat_history req)"
  shows "query_handler stringify (Inl e) req = (Inl e, [InitializeAgent])"
  using assms by (simp add: query_handler_def)

theorem query_handler_agent_acquisition_fails_witness:
  "query_handler (\<lambda>v. js ''[]'') (Inl (Rejected (js ''connection refused'')))
     \<lparr>input = Some (JString (js ''Hello'')), chat_history = Some (JArray [])\<rparr>
   = (Inl (Rejected (js ''connection refused'')), [InitializeAgent])"
proof -
  let ?req = "\<lparr>input = Some (JString (js ''Hello'')), chat_history = Some (JArray [])\<rparr>"
  have g: "truthy (input ?req)"
    by (simp add: js_def)
  have a: "isArray (chat_history ?req)"
    by simp
  show ?thesis
    using query_handler_agent_acquisition_fails [OF g a] by simp
qed

text \<open>
  The second variant awaits the agent inside the \<open>try\<close> block and answers the same
  failure with the processing error. In both variants a failed invocation, or a history
  the formatter throws on, is answered with the processing error and nothing else: the
  body holds no history.
\<close>

lemma query_handler_v2_agent_acquisition_fails:
  assumes "truthy (input req)" and "isArray (chat_history req)"
  shows "query_handler_v2 stringify (Inl e) req
           = (Inr (Http 500 processing_error), [InitializeAgent])"
  using assms by (simp add: query_handler_v2_def catch_500_def)

lemma query_handler_turn_fails:
  assumes "truthy (input req)" and "isArray (chat_history req)"
    and "formatConversationHistory stringify (elements (chat_history req)) = Inl e
         \<or> (\<exists>formattedHistory.
               formatConversationHistory stringify (elements (chat_history req)) = Inr formattedHistory
               \<and> agentExecutor (input req) formattedHistory = Inl e)"
  shows "fst (query_handler stringify (Inr agentExecutor) req) = Inr (Http 500 processing_error)"
    and "fst (query_handler_v2 stringify (Inr agentExecutor) req) = Inr (Http 500 processing_error)"
  using assms
  by (auto simp: query_handler_def query_handler_v2_def catch_500_def query_try_def)

end
